theory Spec2Isabelle
  imports Complex_Main "HOL-Library.Product_Lexorder"
begin

section \<open>Values, errors and frames\<close>

text \<open>
  A Python \<^verbatim>\<open>str\<close> is a sequence of Unicode code points; the literals of the source
  (column names, group labels, company names) are written out as code points.
  Numbers are exact rationals: the rounding of binary floating point is not modelled.
\<close>

type_synonym pystr = "nat list"

text \<open>One cell of a DataFrame: NaN/None/NaT, a number, a string, or a timestamp/date.\<close>

datatype cell = Null | Num rat | Str pystr | Ts int

datatype error =
    KeyError pystr | TypeError | ValueError | IndexError | ZeroDivisionError
  | FileNotFoundError pystr

text \<open>What the source prints with \<^verbatim>\<open>print("...")\<close> as a warning.\<close>

datatype warning =
    DateColumnMissing pystr
  | UnitDimensionColumnMissing
  | UnitNameColumnMissing

type_synonym row = "(pystr \<times> cell) list"

record frame =
  columns :: "pystr list"
  rows :: "row list"

definition cell_at :: "row \<Rightarrow> pystr \<Rightarrow> cell" where
  "cell_at r c = (case map_of r c of Some v \<Rightarrow> v | None \<Rightarrow> Null)"

text \<open>
  The library functions the source calls on single values. They belong to pandas and
  the Python runtime, not to the repository, and are parameters of the model:
  \<^item> \<open>to_datetime\<close>: \<^verbatim>\<open>pd.to_datetime(x)\<close> with the default \<^verbatim>\<open>errors='raise'\<close>;
    \<open>Inr None\<close> is NaT;
  \<^item> \<open>to_numeric\<close>: \<^verbatim>\<open>pd.to_numeric(x, errors='coerce')\<close>, \<open>None\<close> is NaN;
  \<^item> \<open>py_str\<close>: \<^verbatim>\<open>str(x)\<close> and \<^verbatim>\<open>astype(str)\<close>;
  \<^item> \<open>digit_value\<close>: the value of a code point that the regular expression class
    \<^verbatim>\<open>\d\<close> matches (a Unicode decimal digit);
  \<^item> \<open>is_space\<close>: the code points that \<^verbatim>\<open>\s\<close> matches;
  \<^item> \<open>strptime_hm\<close>: \<^verbatim>\<open>pd.to_datetime(x, format='%H:%M', errors='coerce')\<close>;
  \<^item> \<open>date_of\<close>: \<^verbatim>\<open>.dt.date\<close> on one timestamp.
\<close>

record pandas =
  to_datetime :: "cell \<Rightarrow> error + int option"
  to_numeric :: "cell \<Rightarrow> rat option"
  py_str :: "cell \<Rightarrow> pystr"
  digit_value :: "nat \<Rightarrow> nat option"
  is_space :: "nat \<Rightarrow> bool"
  strptime_hm :: "cell \<Rightarrow> int option"
  date_of :: "int \<Rightarrow> int"

text \<open>\<^verbatim>\<open>pd.to_datetime(x, errors='coerce')\<close>: a value that would raise becomes NaT.\<close>

definition to_datetime_coerce :: "pandas \<Rightarrow> cell \<Rightarrow> int option" where
  "to_datetime_coerce pd c = (case to_datetime pd c of Inl e \<Rightarrow> None | Inr v \<Rightarrow> v)"

text \<open>Sequencing of computations that may raise.\<close>

definition ebind :: "error + 'a \<Rightarrow> ('a \<Rightarrow> error + 'b) \<Rightarrow> error + 'b" where
  "ebind m f = (case m of Inl e \<Rightarrow> Inl e | Inr x \<Rightarrow> f x)"

fun mapM :: "('a \<Rightarrow> error + 'b) \<Rightarrow> 'a list \<Rightarrow> error + 'b list" where
  "mapM f [] = Inr []"
| "mapM f (x # xs) =
     (case f x of
        Inl e \<Rightarrow> Inl e
      | Inr y \<Rightarrow> (case mapM f xs of Inl e \<Rightarrow> Inl e | Inr ys \<Rightarrow> Inr (y # ys)))"

text \<open>\<^verbatim>\<open>df[c]\<close>: the cells of a column, KeyError when the frame has no such column.\<close>

definition col_cells :: "frame \<Rightarrow> pystr \<Rightarrow> cell list" where
  "col_cells df c = map (\<lambda>r. cell_at r c) (rows df)"

definition get_col :: "frame \<Rightarrow> pystr \<Rightarrow> error + cell list" where
  "get_col df c = (if c \<in> set (columns df) then Inr (col_cells df c) else Inl (KeyError c))"

text \<open>\<^verbatim>\<open>df[mask]\<close>: boolean indexing keeps the rows whose mask entry is True.\<close>

definition select_rows :: "frame \<Rightarrow> bool list \<Rightarrow> frame" where
  "select_rows df bs = df\<lparr>rows := map fst (filter snd (zip (rows df) bs))\<rparr>"

section \<open>Column names and labels of review.py\<close>

definition col_date :: pystr where
  "col_date = [0x65e5, 0x671f]"
definition col_company :: pystr where
  "col_company = [0x516c, 0x53f8, 0x540d, 0x79f0]"
definition col_unit :: pystr where
  "col_unit = [0x673a, 0x7ec4, 0x540d, 0x79f0]"
definition col_unit_dimension :: pystr where
  "col_unit_dimension = [0x673a, 0x7ec4, 0x7ef4, 0x5ea6]"
definition col_da_node_price :: pystr where
  "col_da_node_price = [0x65e5, 0x524d, 0x51fa, 0x6e05, 0x8282, 0x70b9, 0x4ef7, 0x683c]"
definition col_rt_node_price :: pystr where
  "col_rt_node_price = [0x65e5, 0x5185, 0x51fa, 0x6e05, 0x8282, 0x70b9, 0x4ef7, 0x683c]"
definition col_inter_da_price :: pystr where
  "col_inter_da_price = [0x7701, 0x95f4, 0x65e5, 0x524d, 0x51fa, 0x6e05, 0x4ef7, 0x683c]"
definition col_inter_da_power :: pystr where
  "col_inter_da_power = [0x7701, 0x95f4, 0x65e5, 0x524d, 0x51fa, 0x6e05, 0x7535, 0x529b]"
definition col_inter_rt_power :: pystr where
  "col_inter_rt_power = [0x7701, 0x95f4, 0x5b9e, 0x65f6, 0x51fa, 0x6e05, 0x7535, 0x529b]"
definition col_inter_rt_price :: pystr where
  "col_inter_rt_price = [0x7701, 0x95f4, 0x5b9e, 0x65f6, 0x51fa, 0x6e05, 0x4ef7, 0x683c]"
definition col_da_power :: pystr where
  "col_da_power = [0x65e5, 0x524d, 0x4e2d, 0x6807, 0x51fa, 0x529b]"
definition col_intra_ml_power :: pystr where
  "col_intra_ml_power = [0x7701, 0x5185, 0x4e2d, 0x957f, 0x671f, 0x4e0a, 0x7f51, 0x7535, 0x91cf]"
definition col_intra_ml_price :: pystr where
  "col_intra_ml_price = [0x7701, 0x5185, 0x4e2d, 0x957f, 0x671f, 0x5747, 0x4ef7]"
definition col_inter_ml_power :: pystr where
  "col_inter_ml_power = [0x7701, 0x95f4, 0x4e2d, 0x957f, 0x671f, 0x4e0a, 0x7f51, 0x7535, 0x91cf]"
definition col_inter_ml_price :: pystr where
  "col_inter_ml_price = [0x7701, 0x95f4, 0x4e2d, 0x957f, 0x671f, 0x5747, 0x4ef7]"

section \<open>filter_by_price_range\<close>

text \<open>
  The nine filter parameters shared by every metric function, and the two more
  (\<open>price_column\<close>, \<open>date_column\<close>) that \<^verbatim>\<open>filter_by_price_range\<close> takes.
\<close>

record query =
  min_price :: "rat option"
  max_price :: "rat option"
  start_date :: "pystr option"
  end_date :: "pystr option"
  company_name :: "pystr option"
  unit_name :: "pystr option"
  unit_dimension :: "pystr option"
  include_min_boundary :: bool
  include_max_boundary :: bool

record filter_args = query +
  price_column :: pystr
  date_column :: pystr

text \<open>
  \<^verbatim>\<open>series >= m\<close> and its siblings on one cell: NaN compares False, a number is
  compared, a string or a timestamp against a float raises TypeError.
\<close>

fun cmp_price :: "(rat \<Rightarrow> rat \<Rightarrow> bool) \<Rightarrow> rat \<Rightarrow> cell \<Rightarrow> error + bool" where
  "cmp_price rel m Null = Inr False"
| "cmp_price rel m (Num x) = Inr (rel x m)"
| "cmp_price rel m (Str s) = Inl TypeError"
| "cmp_price rel m (Ts t) = Inl TypeError"

text \<open>\<^verbatim>\<open>filtered = filtered[filtered[c] REL m]\<close>\<close>

definition price_mask :: "frame \<Rightarrow> pystr \<Rightarrow> (rat \<Rightarrow> rat \<Rightarrow> bool) \<Rightarrow> rat \<Rightarrow> error + frame" where
  "price_mask df c rel m =
     ebind (get_col df c) (\<lambda>cells.
     ebind (mapM (cmp_price rel m) cells) (\<lambda>bs.
     Inr (select_rows df bs)))"

text \<open>
  The block under \<^verbatim>\<open># price filter\<close> (lines 119-129), which
  \<^verbatim>\<open>calculate_realtime_hours\<close> repeats on the intraday column (lines 244-254).
\<close>

definition price_bounds :: "('z query_scheme) \<Rightarrow> pystr \<Rightarrow> frame \<Rightarrow> error + frame" where
  "price_bounds q c df =
     ebind (case min_price q of
              None \<Rightarrow> Inr df
            | Some m \<Rightarrow>
                if include_min_boundary q then price_mask df c (\<lambda>x y. x \<ge> y) m
                else price_mask df c (\<lambda>x y. x > y) m) (\<lambda>f1.
     case max_price q of
       None \<Rightarrow> Inr f1
     | Some m \<Rightarrow>
         if include_max_boundary q then price_mask f1 c (\<lambda>x y. x \<le> y) m
         else price_mask f1 c (\<lambda>x y. x < y) m)"

text \<open>Comparison of a parsed date with a bound; NaT on either side compares False.\<close>

fun ts_ge :: "int option \<Rightarrow> int option \<Rightarrow> bool" where
  "ts_ge (Some d) (Some b) = (d \<ge> b)"
| "ts_ge _ _ = False"

fun ts_le :: "int option \<Rightarrow> int option \<Rightarrow> bool" where
  "ts_le (Some d) (Some b) = (d \<le> b)"
| "ts_le _ _ = False"

text \<open>
  The block under \<^verbatim>\<open># date filter\<close> (lines 132-147). The bound is parsed with
  \<^verbatim>\<open>pd.to_datetime(start_date)\<close>, which raises on an unparseable string; the column
  is parsed with \<^verbatim>\<open>errors='coerce'\<close>.
\<close>

definition date_stage :: "pandas \<Rightarrow> filter_args \<Rightarrow> frame \<Rightarrow> error + (warning list \<times> frame)" where
  "date_stage pd a df =
     (if date_column a \<in> set (columns df) then
        ebind (case start_date a of
                 None \<Rightarrow> Inr df
               | Some s \<Rightarrow>
                   ebind (to_datetime pd (Str s)) (\<lambda>start_ts.
                   Inr (select_rows df
                     (map (\<lambda>c. ts_ge (to_datetime_coerce pd c) start_ts)
                        (col_cells df (date_column a)))))) (\<lambda>f1.
        ebind (case end_date a of
                 None \<Rightarrow> Inr f1
               | Some s \<Rightarrow>
                   ebind (to_datetime pd (Str s)) (\<lambda>end_ts.
                   Inr (select_rows f1
                     (map (\<lambda>c. ts_le (to_datetime_coerce pd c) end_ts)
                        (col_cells f1 (date_column a)))))) (\<lambda>f2.
        Inr ([], f2)))
      else if start_date a \<noteq> None \<or> end_date a \<noteq> None then
        Inr ([DateColumnMissing (date_column a)], df)
      else Inr ([], df))"

text \<open>\<^verbatim>\<open>filtered[filtered[c] == name]\<close>: exact match against a string.\<close>

definition eq_mask :: "frame \<Rightarrow> pystr \<Rightarrow> pystr \<Rightarrow> frame" where
  "eq_mask df c name = select_rows df (map (\<lambda>v. v = Str name) (col_cells df c))"

definition company_stage :: "filter_args \<Rightarrow> frame \<Rightarrow> frame" where
  "company_stage a df =
     (case company_name a of
        Some name \<Rightarrow> if col_company \<in> set (columns df) then eq_mask df col_company name else df
      | None \<Rightarrow> df)"

definition unit_stage :: "filter_args \<Rightarrow> frame \<Rightarrow> frame" where
  "unit_stage a df =
     (case unit_name a of
        Some name \<Rightarrow> if col_unit \<in> set (columns df) then eq_mask df col_unit name else df
      | None \<Rightarrow> df)"

definition unit_dimension_stage :: "filter_args \<Rightarrow> frame \<Rightarrow> warning list \<times> frame" where
  "unit_dimension_stage a df =
     (case unit_dimension a of
        Some name \<Rightarrow>
          if col_unit_dimension \<in> set (columns df)
          then ([], eq_mask df col_unit_dimension name)
          else ([UnitDimensionColumnMissing], df)
      | None \<Rightarrow> ([], df))"

text \<open>
  \<^verbatim>\<open>PowerDataAnalyzer.filter_by_price_range\<close> on the loaded frame \<open>df\<close>: the result is
  the exception raised, or the warnings printed and the filtered frame.
\<close>

definition filter_by_price_range ::
  "pandas \<Rightarrow> frame \<Rightarrow> filter_args \<Rightarrow> error + (warning list \<times> frame)" where
  "filter_by_price_range pd df a =
     ebind (price_bounds a (price_column a) df) (\<lambda>f1.
     ebind (date_stage pd a f1) (\<lambda>(w1, f2).
     (let f3 = company_stage a f2;
          f4 = unit_stage a f3;
          (w2, f5) = unit_dimension_stage a f4
      in Inr (w1 @ w2, f5))))"

text \<open>
  The metric functions take the nine shared parameters and call the filter with the
  forecast clearing node price column and the default date column.
\<close>

definition mk_args :: "query \<Rightarrow> pystr \<Rightarrow> filter_args" where
  "mk_args q pc =
     \<lparr>min_price = min_price q, max_price = max_price q,
      start_date = start_date q, end_date = end_date q,
      company_name = company_name q, unit_name = unit_name q,
      unit_dimension = unit_dimension q,
      include_min_boundary = include_min_boundary q,
      include_max_boundary = include_max_boundary q,
      price_column = pc, date_column = col_date\<rparr>"

section \<open>Metrics 1 and 2\<close>

text \<open>\<^verbatim>\<open>len(filtered) / 4\<close>\<close>

definition hours_of :: "frame \<Rightarrow> rat" where
  "hours_of f = of_nat (length (rows f)) / 4"

definition calculate_daily_forward_hours :: "pandas \<Rightarrow> frame \<Rightarrow> query \<Rightarrow> error + rat" where
  "calculate_daily_forward_hours pd df q =
     ebind (filter_by_price_range pd df (mk_args q col_da_node_price)) (\<lambda>(w, filtered).
     Inr (hours_of filtered))"

definition calculate_realtime_hours :: "pandas \<Rightarrow> frame \<Rightarrow> query \<Rightarrow> error + rat" where
  "calculate_realtime_hours pd df q =
     ebind (filter_by_price_range pd df (mk_args q col_da_node_price)) (\<lambda>(w, filtered).
     ebind (if col_rt_node_price \<in> set (columns filtered)
            then price_bounds q col_rt_node_price filtered
            else Inr filtered) (\<lambda>filtered2.
     Inr (hours_of filtered2)))"

section \<open>The filter as the specification words it\<close>

text \<open>
  The specification describes the filter as one predicate on rows: price within the
  bounds (a null price fails), date within the range (an unparseable date fails), and
  exact matches on company, unit and unit group, each a no-op when its parameter is unset
  or its column is absent. \<open>passes_filter\<close> is that predicate; \<open>filter_defined\<close> says
  when the source raises no exception. Both are compared with the source's function below.
\<close>

definition numeric :: "cell \<Rightarrow> bool" where
  "numeric c = (case c of Null \<Rightarrow> True | Num x \<Rightarrow> True | _ \<Rightarrow> False)"

definition price_ok :: "('z query_scheme) \<Rightarrow> cell \<Rightarrow> bool" where
  "price_ok q v =
     ((case min_price q of
         None \<Rightarrow> True
       | Some m \<Rightarrow> (case v of Num x \<Rightarrow> (if include_min_boundary q then x \<ge> m else x > m)
                    | _ \<Rightarrow> False)) \<and>
      (case max_price q of
         None \<Rightarrow> True
       | Some m \<Rightarrow> (case v of Num x \<Rightarrow> (if include_max_boundary q then x \<le> m else x < m)
                    | _ \<Rightarrow> False)))"

definition date_bound :: "pandas \<Rightarrow> pystr \<Rightarrow> int option" where
  "date_bound pd s = (case to_datetime pd (Str s) of Inl e \<Rightarrow> None | Inr v \<Rightarrow> v)"

definition date_ok :: "pandas \<Rightarrow> filter_args \<Rightarrow> pystr list \<Rightarrow> row \<Rightarrow> bool" where
  "date_ok pd a cols r =
     (date_column a \<in> set cols \<longrightarrow>
        (case start_date a of
           None \<Rightarrow> True
         | Some s \<Rightarrow> ts_ge (to_datetime_coerce pd (cell_at r (date_column a))) (date_bound pd s)) \<and>
        (case end_date a of
           None \<Rightarrow> True
         | Some s \<Rightarrow> ts_le (to_datetime_coerce pd (cell_at r (date_column a))) (date_bound pd s)))"

definition name_ok :: "pystr option \<Rightarrow> pystr \<Rightarrow> pystr list \<Rightarrow> row \<Rightarrow> bool" where
  "name_ok p c cols r =
     (case p of None \<Rightarrow> True | Some name \<Rightarrow> c \<in> set cols \<longrightarrow> cell_at r c = Str name)"

definition passes_filter :: "pandas \<Rightarrow> filter_args \<Rightarrow> pystr list \<Rightarrow> row \<Rightarrow> bool" where
  "passes_filter pd a cols r =
     (price_ok a (cell_at r (price_column a)) \<and>
      date_ok pd a cols r \<and>
      name_ok (company_name a) col_company cols r \<and>
      name_ok (unit_name a) col_unit cols r \<and>
      name_ok (unit_dimension a) col_unit_dimension cols r)"

definition filter_defined :: "pandas \<Rightarrow> frame \<Rightarrow> filter_args \<Rightarrow> bool" where
  "filter_defined pd df a =
     (((min_price a \<noteq> None \<or> max_price a \<noteq> None) \<longrightarrow>
         price_column a \<in> set (columns df) \<and>
         list_all (\<lambda>r. numeric (cell_at r (price_column a))) (rows df)) \<and>
      (date_column a \<in> set (columns df) \<longrightarrow>
         (case start_date a of None \<Rightarrow> True | Some s \<Rightarrow> \<not> isl (to_datetime pd (Str s))) \<and>
         (case end_date a of None \<Rightarrow> True | Some s \<Rightarrow> \<not> isl (to_datetime pd (Str s)))))"

text \<open>
  Metric 2 in the specification's words: a quarter of the number of rows that pass the
  metric-1 filter and whose intraday clearing node price is within the same bounds.
\<close>

definition spec_realtime_hours :: "pandas \<Rightarrow> frame \<Rightarrow> query \<Rightarrow> rat" where
  "spec_realtime_hours pd df q =
     of_nat (length (filter
       (\<lambda>r. passes_filter pd (mk_args q col_da_node_price) (columns df) r \<and>
            price_ok q (cell_at r col_rt_node_price))
       (rows df))) / 4"

section \<open>Sample inputs\<close>

text \<open>A stand-in for the library functions, used to evaluate the model on concrete frames.\<close>

definition sample_pandas :: pandas where
  "sample_pandas =
     \<lparr>to_datetime = (\<lambda>c. case c of Ts t \<Rightarrow> Inr (Some t) | Null \<Rightarrow> Inr None
                        | Str s \<Rightarrow> (if s = [] then Inl ValueError else Inr (Some (int (length s))))
                        | Num x \<Rightarrow> Inl ValueError),
      to_numeric = (\<lambda>c. case c of Num x \<Rightarrow> Some x | _ \<Rightarrow> None),
      py_str = (\<lambda>c. case c of Str s \<Rightarrow> s | _ \<Rightarrow> []),
      digit_value = (\<lambda>n. if 48 \<le> n \<and> n \<le> 57 then Some (n - 48) else None),
      is_space = (\<lambda>n. n = 32),
      strptime_hm = (\<lambda>c. case c of Ts t \<Rightarrow> Some t | _ \<Rightarrow> None),
      date_of = (\<lambda>t. t)\<rparr>"

definition no_query :: query where
  "no_query =
     \<lparr>min_price = None, max_price = None, start_date = None, end_date = None,
      company_name = None, unit_name = None, unit_dimension = None,
      include_min_boundary = False, include_max_boundary = False\<rparr>"

definition price_row :: "rat \<Rightarrow> cell \<Rightarrow> row" where
  "price_row da rt = [(col_da_node_price, Num da), (col_rt_node_price, rt)]"

definition price_frame :: frame where
  "price_frame =
     \<lparr>columns = [col_da_node_price, col_rt_node_price],
      rows = [price_row 100 (Num 100), price_row 150 (Num 90), price_row 150 Null,
              price_row 200 (Num 120), price_row 90 (Num 300)]\<rparr>"

definition forecast_only_frame :: frame where
  "forecast_only_frame =
     \<lparr>columns = [col_da_node_price], rows = [[(col_da_node_price, Num 150)]]\<rparr>"

text \<open>The default arguments of \<^verbatim>\<open>filter_by_price_range\<close>.\<close>

definition default_args :: filter_args where
  "default_args =
     \<lparr>min_price = None, max_price = None, start_date = None, end_date = None,
      company_name = None, unit_name = None, unit_dimension = None,
      include_min_boundary = False, include_max_boundary = False,
      price_column = col_inter_da_price, date_column = col_date\<rparr>"

section \<open>Metrics 5, 7 and 10\<close>

definition co_tonghua :: pystr where "co_tonghua = [0x540c, 0x534e]"
definition co_tashan :: pystr where "co_tashan = [0x5854, 0x5c71]"
definition co_yanggao :: pystr where "co_yanggao = [0x9633, 0x9ad8]"
definition co_tongda :: pystr where "co_tongda = [0x540c, 0x8fbe]"
definition co_wangping :: pystr where "co_wangping = [0x738b, 0x576a]"
definition co_puzhou :: pystr where "co_puzhou = [0x84b2, 0x6d32]"
definition co_hejin :: pystr where "co_hejin = [0x6cb3, 0x6d25]"
definition co_linfen :: pystr where "co_linfen = [0x4e34, 0x6c7e]"
definition co_houma :: pystr where "co_houma = [0x4faf, 0x9a6c]"

text \<open>\<^verbatim>\<open>self.power_conversion_factors\<close> and \<^verbatim>\<open>self.default_power_conversion_factor\<close>\<close>

definition power_conversion_factors :: "(pystr \<times> rat) list" where
  "power_conversion_factors =
     [(co_tonghua, 660 / 660), (co_tashan, 660 / 600), (co_yanggao, 660 / 350),
      (co_tongda, 660 / 330), (co_wangping, 660 / 200), (co_puzhou, 660 / 350),
      (co_hejin, 660 / 350), (co_linfen, 660 / 300), (co_houma, 660 / 300)]"

definition default_power_conversion_factor :: rat where
  "default_power_conversion_factor = 1"

definition get_power_conversion_factor :: "pystr option \<Rightarrow> rat" where
  "get_power_conversion_factor cn =
     (case cn of
        None \<Rightarrow> default_power_conversion_factor
      | Some name \<Rightarrow>
          (case map_of power_conversion_factors name of
             Some f \<Rightarrow> f
           | None \<Rightarrow> default_power_conversion_factor))"

text \<open>\<^verbatim>\<open>series.fillna(0)\<close>\<close>

fun fill0 :: "cell \<Rightarrow> cell" where
  "fill0 Null = Num 0"
| "fill0 c = c"

definition fillna0 :: "cell list \<Rightarrow> cell list" where
  "fillna0 cs = map fill0 cs"

text \<open>
  Elementwise arithmetic of two series: numbers combine, NaN propagates, a string or a
  timestamp raises TypeError.
\<close>

fun arith :: "(rat \<Rightarrow> rat \<Rightarrow> rat) \<Rightarrow> cell \<Rightarrow> cell \<Rightarrow> error + cell" where
  "arith f (Num x) (Num y) = Inr (Num (f x y))"
| "arith f Null (Num y) = Inr Null"
| "arith f (Num x) Null = Inr Null"
| "arith f Null Null = Inr Null"
| "arith f _ _ = Inl TypeError"

definition series_op :: "(rat \<Rightarrow> rat \<Rightarrow> rat) \<Rightarrow> cell list \<Rightarrow> cell list \<Rightarrow> error + cell list" where
  "series_op f xs ys = mapM (\<lambda>(x, y). arith f x y) (zip xs ys)"

text \<open>\<^verbatim>\<open>series.sum()\<close>: NaN is skipped, a string or a timestamp raises TypeError.\<close>

fun sum_cells :: "cell list \<Rightarrow> error + rat" where
  "sum_cells [] = Inr 0"
| "sum_cells (Null # cs) = sum_cells cs"
| "sum_cells (Num x # cs) = ebind (sum_cells cs) (\<lambda>s. Inr (x + s))"
| "sum_cells (_ # cs) = Inl TypeError"

text \<open>\<^verbatim>\<open>a / b\<close> on Python floats.\<close>

definition py_truediv :: "rat \<Rightarrow> rat \<Rightarrow> error + rat" where
  "py_truediv a b = (if b = 0 then Inl ZeroDivisionError else Inr (a / b))"

text \<open>\<^verbatim>\<open>df.empty\<close>: some axis has length 0.\<close>

definition frame_empty :: "frame \<Rightarrow> bool" where
  "frame_empty df = (rows df = [] \<or> columns df = [])"

text \<open>
  The weighted average that metrics 5 and 10 share: four columns are read and filled
  with 0, the numerator is the sum of \<open>power1 * price1 + power2 * price2\<close>, the
  denominator the sum of the two powers in the order the source adds them.
\<close>

definition calculate_inter_provincial_avg_price ::
  "pandas \<Rightarrow> frame \<Rightarrow> query \<Rightarrow> pystr \<Rightarrow> error + rat" where
  "calculate_inter_provincial_avg_price pd df q pc =
     ebind (filter_by_price_range pd df (mk_args q pc)) (\<lambda>(w, filtered).
     ebind (get_col filtered col_inter_da_power) (\<lambda>c1.
     ebind (get_col filtered col_inter_da_price) (\<lambda>c2.
     ebind (get_col filtered col_inter_rt_power) (\<lambda>c3.
     ebind (get_col filtered col_inter_rt_price) (\<lambda>c4.
     (let power_daily = fillna0 c1; price_daily = fillna0 c2;
          power_realtime = fillna0 c3; price_realtime = fillna0 c4
      in ebind (series_op (*) power_daily price_daily) (\<lambda>p1.
         ebind (series_op (*) power_realtime price_realtime) (\<lambda>p2.
         ebind (series_op (+) p1 p2) (\<lambda>s.
         ebind (sum_cells s) (\<lambda>numerator.
         ebind (series_op (+) power_realtime power_daily) (\<lambda>t.
         ebind (sum_cells t) (\<lambda>denominator.
         if denominator = 0 then Inr 0
         else py_truediv numerator denominator))))))))))))"

definition calculate_medium_long_weighted_avg_price ::
  "pandas \<Rightarrow> frame \<Rightarrow> query \<Rightarrow> pystr \<Rightarrow> error + rat" where
  "calculate_medium_long_weighted_avg_price pd df q pc =
     ebind (filter_by_price_range pd df (mk_args q pc)) (\<lambda>(w, filtered).
     ebind (get_col filtered col_intra_ml_power) (\<lambda>c1.
     ebind (get_col filtered col_intra_ml_price) (\<lambda>c2.
     ebind (get_col filtered col_inter_ml_power) (\<lambda>c3.
     ebind (get_col filtered col_inter_ml_price) (\<lambda>c4.
     (let intra_power = fillna0 c1; intra_price = fillna0 c2;
          inter_power = fillna0 c3; inter_price = fillna0 c4
      in ebind (series_op (*) intra_power intra_price) (\<lambda>p1.
         ebind (series_op (*) inter_power inter_price) (\<lambda>p2.
         ebind (series_op (+) p1 p2) (\<lambda>weighted_price.
         ebind (series_op (+) intra_power inter_power) (\<lambda>total_power.
         ebind (sum_cells weighted_price) (\<lambda>numerator.
         ebind (sum_cells total_power) (\<lambda>denominator.
         if denominator = 0 then Inr 0
         else py_truediv numerator denominator))))))))))))"

definition calculate_daily_forward_power :: "pandas \<Rightarrow> frame \<Rightarrow> query \<Rightarrow> error + rat" where
  "calculate_daily_forward_power pd df q =
     ebind (filter_by_price_range pd df (mk_args q col_da_node_price)) (\<lambda>(w, filtered).
     if frame_empty filtered then Inr 0
     else (let hours = hours_of filtered in
       if hours = 0 then Inr 0
       else ebind (get_col filtered col_da_power) (\<lambda>cells.
            ebind (sum_cells cells) (\<lambda>s.
            (let total_power = s / 4;
                 factor = get_power_conversion_factor (company_name q)
             in py_truediv (total_power * factor) hours)))))"

text \<open>Four quarter-hour rows of company Tashan whose committed output sums to 600.\<close>

definition tashan_row :: "rat \<Rightarrow> row" where
  "tashan_row p =
     [(col_company, Str co_tashan), (col_da_node_price, Num 300), (col_da_power, Num p)]"

definition tashan_frame :: frame where
  "tashan_frame =
     \<lparr>columns = [col_company, col_da_node_price, col_da_power],
      rows = [tashan_row 100, tashan_row 200, tashan_row 150, tashan_row 150]\<rparr>"

text \<open>
  The hypotheses of the zero-volume property: every volume in the column is null or zero,
  every price in the column is a number or null.
\<close>

definition zero_volume :: "frame \<Rightarrow> pystr \<Rightarrow> bool" where
  "zero_volume f c = list_all (\<lambda>r. cell_at r c = Null \<or> cell_at r c = Num 0) (rows f)"

definition numeric_column :: "frame \<Rightarrow> pystr \<Rightarrow> bool" where
  "numeric_column f c = list_all (\<lambda>r. numeric (cell_at r c)) (rows f)"

text \<open>Two rows whose cross-provincial and medium/long-term volumes are all null or zero.\<close>

definition zero_volume_frame :: frame where
  "zero_volume_frame =
     \<lparr>columns = [col_da_node_price,
                 col_inter_da_power, col_inter_da_price, col_inter_rt_power, col_inter_rt_price,
                 col_intra_ml_power, col_intra_ml_price, col_inter_ml_power, col_inter_ml_price],
      rows = [[(col_da_node_price, Num 300),
               (col_inter_da_power, Null), (col_inter_da_price, Num 400),
               (col_inter_rt_power, Num 0), (col_inter_rt_price, Null),
               (col_intra_ml_power, Num 0), (col_intra_ml_price, Num 350),
               (col_inter_ml_power, Null), (col_inter_ml_price, Num 360)],
              [(col_da_node_price, Num 310),
               (col_inter_da_power, Num 0), (col_inter_da_price, Null),
               (col_inter_rt_power, Null), (col_inter_rt_price, Num 420),
               (col_intra_ml_power, Null), (col_intra_ml_price, Null),
               (col_inter_ml_power, Num 0), (col_inter_ml_price, Num 365)]]\<rparr>"

section \<open>The unit dimension column\<close>

definition dim_unknown :: pystr where
  "dim_unknown = [0x672a, 0x77e5]"
definition dim_13 :: pystr where
  "dim_13 = [0x673a, 0x7ec4, 0x31, 0x26, 0x33, 0x7ec4]"
definition dim_24 :: pystr where
  "dim_24 = [0x673a, 0x7ec4, 0x32, 0x26, 0x34, 0x7ec4]"
definition dim_other :: pystr where
  "dim_other = [0x5176, 0x4ed6, 0x673a, 0x7ec4]"

text \<open>
  \<^verbatim>\<open>re.search(r'(\d+)', s)\<close>: the leftmost position where a digit stands, and from
  there the longest run of digits; \<open>None\<close> when the string has no digit. The result is
  the list of the digits' values.
\<close>

fun take_digits :: "(nat \<Rightarrow> nat option) \<Rightarrow> pystr \<Rightarrow> nat list" where
  "take_digits dv [] = []"
| "take_digits dv (c # cs) = (case dv c of None \<Rightarrow> [] | Some d \<Rightarrow> d # take_digits dv cs)"

fun search_digits :: "(nat \<Rightarrow> nat option) \<Rightarrow> pystr \<Rightarrow> nat list option" where
  "search_digits dv [] = None"
| "search_digits dv (c # cs) =
     (case dv c of None \<Rightarrow> search_digits dv cs | Some d \<Rightarrow> Some (d # take_digits dv cs))"

text \<open>\<^verbatim>\<open>int(match.group(1))\<close>\<close>

definition int_of_digits :: "nat list \<Rightarrow> nat" where
  "int_of_digits ds = foldl (\<lambda>acc d. 10 * acc + d) 0 ds"

text \<open>\<^verbatim>\<open>str(unit_name)\<close>: a string is itself.\<close>

definition str_of :: "pandas \<Rightarrow> cell \<Rightarrow> pystr" where
  "str_of pd c = (case c of Str s \<Rightarrow> s | _ \<Rightarrow> py_str pd c)"

definition determine_dimension :: "pandas \<Rightarrow> cell \<Rightarrow> pystr" where
  "determine_dimension pd name =
     (if name = Null then dim_unknown
      else (case search_digits (digit_value pd) (str_of pd name) of
              None \<Rightarrow> dim_unknown
            | Some ds \<Rightarrow>
                (let unit_no = int_of_digits ds
                 in if unit_no = 1 \<or> unit_no = 3 then dim_13
                    else if unit_no = 2 \<or> unit_no = 4 then dim_24
                    else dim_other)))"

text \<open>\<^verbatim>\<open>df[c] = values\<close>: an existing column is overwritten in place, a new one is appended.\<close>

fun row_set :: "pystr \<Rightarrow> cell \<Rightarrow> row \<Rightarrow> row" where
  "row_set c v [] = [(c, v)]"
| "row_set c v ((k, x) # r) = (if k = c then (k, v) # r else (k, x) # row_set c v r)"

definition set_column :: "frame \<Rightarrow> pystr \<Rightarrow> cell list \<Rightarrow> frame" where
  "set_column df c vs =
     \<lparr>columns = (if c \<in> set (columns df) then columns df else columns df @ [c]),
      rows = map (\<lambda>(r, v). row_set c v r) (zip (rows df) vs)\<rparr>"

definition add_unit_dimension_column :: "pandas \<Rightarrow> frame \<Rightarrow> warning list \<times> frame" where
  "add_unit_dimension_column pd df =
     (if col_unit \<notin> set (columns df) then ([UnitNameColumnMissing], df)
      else ([], set_column df col_unit_dimension
                  (map (\<lambda>v. Str (determine_dimension pd v)) (col_cells df col_unit))))"

text \<open>
  The value the amended claim reads off a name: the digits of the first run, as
  \<^verbatim>\<open>int\<close> reads them.
\<close>

definition run_value :: "(nat \<Rightarrow> nat option) \<Rightarrow> pystr \<Rightarrow> nat" where
  "run_value dv ds = int_of_digits (List.map_filter dv ds)"

text \<open>Sample unit names: \<open>unit 1\<close>, \<open>unit 3\<close>, and \<open>unit 2-3\<close> (which ends in 3).\<close>

definition unit_1 :: pystr where "unit_1 = [0x673a, 0x7ec4, 0x31]"
definition unit_3 :: pystr where "unit_3 = [0x673a, 0x7ec4, 0x33]"
definition unit_2_3 :: pystr where "unit_2_3 = [0x673a, 0x7ec4, 0x32, 0x2d, 0x33]"

section \<open>Boundary data: names\<close>

text \<open>
  The nine required file names, the column names and the labels of
  \<^verbatim>\<open>preprocess_boundary_files\<close> (app.py) and \<^verbatim>\<open>preprocess_data\<close>
  (preprocess-data.py), as code points.
\<close>

definition file_load :: pystr where
  "file_load =
     [0x65e5, 0x524d, 0x7edf, 0x8c03, 0x7cfb, 0x7edf, 0x8d1f, 0x8377, 0x9884, 0x6d4b, 0x5f,
     0x52, 0x45, 0x50, 0x4f, 0x52, 0x54, 0x30, 0x2e, 0x78, 0x6c, 0x73, 0x78]"
definition file_renewable :: pystr where
  "file_renewable =
     [0x65e5, 0x524d, 0x65b0, 0x80fd, 0x6e90, 0x8d1f, 0x8377, 0x9884, 0x6d4b, 0x5f, 0x52, 0x45,
     0x50, 0x4f, 0x52, 0x54, 0x30, 0x2e, 0x78, 0x6c, 0x73, 0x78]"
definition file_disclosure :: pystr where
  "file_disclosure =
     [0x62ab, 0x9732, 0x4fe1, 0x606f, 0x39, 0x36, 0x70b9, 0x6570, 0x636e, 0x5f, 0x52, 0x45,
     0x50, 0x4f, 0x52, 0x54, 0x30, 0x2e, 0x78, 0x6c, 0x73, 0x78]"
definition file_tie_line :: pystr where
  "file_tie_line =
     [0x65e5, 0x524d, 0x8054, 0x7edc, 0x7ebf, 0x8ba1, 0x5212, 0x5f, 0x52, 0x45, 0x50, 0x4f,
     0x52, 0x54, 0x30, 0x2e, 0x78, 0x6c, 0x73, 0x78]"
definition file_clearing :: pystr where
  "file_clearing =
     [0x65e5, 0x524d, 0x5e02, 0x573a, 0x51fa, 0x6e05, 0x60c5, 0x51b5, 0x5f, 0x54, 0x41, 0x42,
     0x4c, 0x45, 0x2e, 0x78, 0x6c, 0x73, 0x78]"
definition file_hydro :: pystr where
  "file_hydro =
     [0x65e5, 0x524d, 0x6c34, 0x7535, 0x8ba1, 0x5212, 0x53d1, 0x7535, 0x603b, 0x51fa, 0x529b,
     0x9884, 0x6d4b, 0x5f, 0x52, 0x45, 0x50, 0x4f, 0x52, 0x54, 0x30, 0x2e, 0x78, 0x6c,
     0x73, 0x78]"
definition file_actual :: pystr where
  "file_actual =
     [0x39, 0x36, 0x70b9, 0x7535, 0x7f51, 0x8fd0, 0x884c, 0x5b9e, 0x9645, 0x503c, 0x5f, 0x52,
     0x45, 0x50, 0x4f, 0x52, 0x54, 0x30, 0x2e, 0x78, 0x6c, 0x73, 0x78]"
definition file_tie_line_rt :: pystr where
  "file_tie_line_rt =
     [0x5b9e, 0x65f6, 0x8054, 0x7edc, 0x7ebf, 0x8ba1, 0x5212, 0x5f, 0x52, 0x45, 0x50, 0x4f,
     0x52, 0x54, 0x30, 0x2e, 0x78, 0x6c, 0x73, 0x78]"
definition file_price :: pystr where
  "file_price =
     [0x73b0, 0x8d27, 0x51fa, 0x6e05, 0x7535, 0x4ef7, 0x5f, 0x52, 0x45, 0x50, 0x4f, 0x52, 0x54,
     0x30, 0x2e, 0x78, 0x6c, 0x73, 0x78]"
definition col_time :: pystr where
  "col_time = [0x65f6, 0x70b9]"
definition col_boundary_type :: pystr where
  "col_boundary_type = [0x8fb9, 0x754c, 0x6570, 0x636e, 0x7c7b, 0x578b]"
definition col_bidding_space :: pystr where
  "col_bidding_space = [0x7ade, 0x4ef7, 0x7a7a, 0x95f4, 0x28, 0x4d, 0x57, 0x29]"
definition col_load :: pystr where
  "col_load = [0x7701, 0x8c03, 0x8d1f, 0x8377, 0x28, 0x4d, 0x57, 0x29]"
definition col_wind :: pystr where
  "col_wind = [0x98ce, 0x7535, 0x28, 0x4d, 0x57, 0x29]"
definition col_solar :: pystr where
  "col_solar = [0x5149, 0x4f0f, 0x28, 0x4d, 0x57, 0x29]"
definition col_renewable :: pystr where
  "col_renewable = [0x65b0, 0x80fd, 0x6e90, 0x8d1f, 0x8377, 0x28, 0x4d, 0x57, 0x29]"
definition col_non_market :: pystr where
  "col_non_market = [0x975e, 0x5e02, 0x573a, 0x5316, 0x51fa, 0x529b, 0x28, 0x4d, 0x57, 0x29]"
definition col_hydro :: pystr where
  "col_hydro = [0x6c34, 0x7535, 0x51fa, 0x529b, 0x28, 0x4d, 0x57, 0x29]"
definition col_tie_line :: pystr where
  "col_tie_line = [0x8054, 0x7edc, 0x7ebf, 0x8ba1, 0x5212, 0x28, 0x4d, 0x57, 0x29]"
definition col_online_capacity :: pystr where
  "col_online_capacity = [0x5728, 0x7ebf, 0x673a, 0x7ec4, 0x5bb9, 0x91cf, 0x28, 0x4d, 0x57, 0x29]"
definition col_da_price :: pystr where
  "col_da_price =
     [0x65e5, 0x524d, 0x51fa, 0x6e05, 0x4ef7, 0x683c, 0x28, 0x5143, 0x2f, 0x4d, 0x57, 0x68,
     0x29]"
definition col_rt_price :: pystr where
  "col_rt_price =
     [0x5b9e, 0x65f6, 0x51fa, 0x6e05, 0x4ef7, 0x683c, 0x28, 0x5143, 0x2f, 0x4d, 0x57, 0x68,
     0x29]"
definition col_load_rate :: pystr where
  "col_load_rate = [0x8d1f, 0x8377, 0x7387, 0x28, 0x25, 0x29]"
definition col_seq :: pystr where
  "col_seq = [0x5e8f, 0x53f7]"
definition col_time_sort :: pystr where
  "col_time_sort = [0x65f6, 0x70b9, 0x5f, 0x6392, 0x5e8f]"
definition col_type_sort :: pystr where
  "col_type_sort = [0x8fb9, 0x754c, 0x6570, 0x636e, 0x7c7b, 0x578b, 0x5f, 0x6392, 0x5e8f]"
definition type_day_ahead :: pystr where
  "type_day_ahead = [0x65e5, 0x524d]"
definition type_real_time :: pystr where
  "type_real_time = [0x5b9e, 0x65f6]"
definition label_total :: pystr where
  "label_total = [0x603b, 0x52a0]"
definition capacity_label :: pystr where
  "capacity_label = [0x8fd0, 0x884c, 0x673a, 0x7ec4, 0x5bb9, 0x91cf]"
definition unit_mw :: pystr where
  "unit_mw = [0x4d, 0x57]"

section \<open>Boundary data: extracting the online capacity\<close>

text \<open>
  \<^verbatim>\<open>re.search(r'<label>(\d+\.?\d*)\s*MW', str(text))\<close>, where the label is the
  six-character literal \<open>capacity_label\<close>. At one position the greedy match is the only
  one that can succeed: after the longest run of digits, an optional dot, the longest run
  of digits and the longest run of white space, the text must continue with \<open>MW\<close>.
  The search tries each position from the left.
\<close>

fun match_literal :: "pystr \<Rightarrow> pystr \<Rightarrow> pystr option" where
  "match_literal [] s = Some s"
| "match_literal (l # ls) [] = None"
| "match_literal (l # ls) (c # cs) = (if l = c then match_literal ls cs else None)"

definition match_capacity_at :: "pandas \<Rightarrow> pystr \<Rightarrow> (nat list \<times> nat list) option" where
  "match_capacity_at pd s =
     (case match_literal capacity_label s of
        None \<Rightarrow> None
      | Some s1 \<Rightarrow>
          (let ip = take_digits (digit_value pd) s1;
               s2 = dropWhile (\<lambda>c. digit_value pd c \<noteq> None) s1
           in if ip = [] then None
              else (let s3 = (case s2 of [] \<Rightarrow> s2 | c # cs \<Rightarrow> if c = 0x2e then cs else s2);
                        fp = take_digits (digit_value pd) s3;
                        s4 = dropWhile (\<lambda>c. digit_value pd c \<noteq> None) s3;
                        s5 = dropWhile (is_space pd) s4
                    in (case match_literal unit_mw s5 of
                          None \<Rightarrow> None
                        | Some rest \<Rightarrow> Some (ip, fp)))))"

fun search_capacity :: "pandas \<Rightarrow> pystr \<Rightarrow> (nat list \<times> nat list) option" where
  "search_capacity pd [] = None"
| "search_capacity pd (c # cs) =
     (case match_capacity_at pd (c # cs) of
        Some m \<Rightarrow> Some m
      | None \<Rightarrow> search_capacity pd cs)"

text \<open>\<^verbatim>\<open>float(match.group(1))\<close> on the integer and the fractional digits.\<close>

definition float_of_digits :: "nat list \<times> nat list \<Rightarrow> rat" where
  "float_of_digits m =
     of_nat (int_of_digits (fst m)) + of_nat (int_of_digits (snd m)) / 10 ^ length (snd m)"

definition extract_online_capacity :: "pandas \<Rightarrow> cell \<Rightarrow> rat option" where
  "extract_online_capacity pd text =
     (if text = Null then None
      else map_option float_of_digits (search_capacity pd (str_of pd text)))"

section \<open>Boundary data: normalising the sources\<close>

text \<open>\<^verbatim>\<open>df.iloc[1:].reset_index(drop=True)\<close>\<close>

definition drop_first_row :: "frame \<Rightarrow> frame" where
  "drop_first_row df = df\<lparr>rows := drop 1 (rows df)\<rparr>"

text \<open>\<^verbatim>\<open>df.iloc[:, k]\<close>: IndexError when the frame has no column at position \<open>k\<close>.\<close>

definition iloc_col :: "frame \<Rightarrow> nat \<Rightarrow> error + cell list" where
  "iloc_col df k =
     (if k < length (columns df) then Inr (col_cells df (columns df ! k)) else Inl IndexError)"

text \<open>\<^verbatim>\<open>pd.to_datetime(series).dt.date\<close>: raises when a value cannot be parsed.\<close>

definition to_date_cells :: "pandas \<Rightarrow> cell list \<Rightarrow> error + cell list" where
  "to_date_cells pd cs =
     mapM (\<lambda>c. ebind (to_datetime pd c) (\<lambda>t.
             Inr (case t of None \<Rightarrow> Null | Some ts \<Rightarrow> Ts (date_of pd ts)))) cs"

text \<open>\<^verbatim>\<open>series.astype(str)\<close>\<close>

definition astype_str :: "pandas \<Rightarrow> cell list \<Rightarrow> cell list" where
  "astype_str pd cs = map (\<lambda>c. Str (str_of pd c)) cs"

text \<open>\<^verbatim>\<open>pd.to_numeric(series, errors='coerce')\<close>\<close>

definition to_numeric_cells :: "pandas \<Rightarrow> cell list \<Rightarrow> cell list" where
  "to_numeric_cells pd cs = map (\<lambda>c. case to_numeric pd c of None \<Rightarrow> Null | Some x \<Rightarrow> Num x) cs"

text \<open>
  The assignments \<^verbatim>\<open>df[name] = pd.to_numeric(df.iloc[:, pos], errors='coerce')\<close>, in the
  order of the source.
\<close>

fun assign_numeric :: "pandas \<Rightarrow> (pystr \<times> nat) list \<Rightarrow> frame \<Rightarrow> error + frame" where
  "assign_numeric pd [] df = Inr df"
| "assign_numeric pd ((name, pos) # rest) df =
     ebind (iloc_col df pos) (\<lambda>cells.
     assign_numeric pd rest (set_column df name (to_numeric_cells pd cells)))"

text \<open>
  The three kinds of assignment that every positional source goes through: the date from
  position \<open>dpos\<close>, the time slot from position \<open>tpos\<close>, then the numeric columns.
\<close>

definition normalise :: "pandas \<Rightarrow> nat \<Rightarrow> nat \<Rightarrow> (pystr \<times> nat) list \<Rightarrow> frame \<Rightarrow> error + frame" where
  "normalise pd dpos tpos nums df =
     ebind (iloc_col df dpos) (\<lambda>dc.
     ebind (to_date_cells pd dc) (\<lambda>dates.
     (let df1 = set_column df col_date dates
      in ebind (iloc_col df1 tpos) (\<lambda>tc.
         (let df2 = set_column df1 col_time (astype_str pd tc)
          in assign_numeric pd nums df2)))))"

definition load_forecast :: "pandas \<Rightarrow> frame \<Rightarrow> error + frame" where
  "load_forecast pd df = normalise pd 1 2 [(col_load, 3)] (drop_first_row df)"

definition load_renewable :: "pandas \<Rightarrow> frame \<Rightarrow> error + frame" where
  "load_renewable pd df =
     normalise pd 1 2 [(col_wind, 4), (col_solar, 5), (col_renewable, 3)] (drop_first_row df)"

definition load_disclosure :: "pandas \<Rightarrow> frame \<Rightarrow> error + frame" where
  "load_disclosure pd df = normalise pd 1 2 [(col_non_market, 3)] (drop_first_row df)"

text \<open>Both tie-line sources: only the rows labelled \<open>label_total\<close> are kept.\<close>

definition load_tie_line :: "pandas \<Rightarrow> frame \<Rightarrow> error + frame" where
  "load_tie_line pd df =
     (let df1 = drop_first_row df
      in ebind (iloc_col df1 1) (\<lambda>labels.
         normalise pd 2 3 [(col_tie_line, 4)]
           (select_rows df1 (map (\<lambda>c. c = Str label_total) labels))))"

text \<open>\<^verbatim>\<open>extract_online_capacity(df_clearing.iloc[0, 2])\<close>\<close>

definition load_clearing :: "pandas \<Rightarrow> frame \<Rightarrow> error + rat option" where
  "load_clearing pd df =
     (let df1 = drop_first_row df
      in if rows df1 = [] \<or> length (columns df1) \<le> 2 then Inl IndexError
         else Inr (extract_online_capacity pd (cell_at (hd (rows df1)) (columns df1 ! 2))))"

definition load_hydro :: "pandas \<Rightarrow> frame \<Rightarrow> error + frame" where
  "load_hydro pd df = normalise pd 1 2 [(col_hydro, 3)] (drop_first_row df)"

definition load_actual :: "pandas \<Rightarrow> frame \<Rightarrow> error + frame" where
  "load_actual pd df =
     normalise pd 1 2
       [(col_load, 3), (col_wind, 5), (col_solar, 6), (col_renewable, 7), (col_hydro, 8),
        (col_non_market, 11)]
       (drop_first_row df)"

text \<open>
  The clearing price source is read by column name; rows whose sequence number is not
  numeric (the daily averages) are dropped.
\<close>

definition load_price :: "pandas \<Rightarrow> frame \<Rightarrow> error + frame" where
  "load_price pd df =
     ebind (get_col df col_seq) (\<lambda>seq.
     (let df1 = select_rows df (map (\<lambda>c. to_numeric pd c \<noteq> None) seq)
      in ebind (get_col df1 col_date) (\<lambda>dc.
         ebind (to_date_cells pd dc) (\<lambda>dates.
         (let df2 = set_column df1 col_date dates
          in ebind (get_col df2 col_time) (\<lambda>tc.
             (let df3 = set_column df2 col_time (astype_str pd tc)
              in ebind (get_col df3 col_rt_price) (\<lambda>rc.
                 (let df4 = set_column df3 col_rt_price (to_numeric_cells pd rc)
                  in ebind (get_col df4 col_da_price) (\<lambda>ac.
                     Inr (set_column df4 col_da_price (to_numeric_cells pd ac))))))))))))"

section \<open>Boundary data: joins\<close>

text \<open>
  \<^verbatim>\<open>df[[c1, ..., cn]]\<close>: the frame restricted to the listed columns, in that order. The
  source only selects columns it has just assigned, so the selection does not raise.
\<close>

definition reindex :: "pystr list \<Rightarrow> row \<Rightarrow> row" where
  "reindex cols r = map (\<lambda>c. (c, cell_at r c)) cols"

definition project :: "frame \<Rightarrow> pystr list \<Rightarrow> frame" where
  "project df cols = \<lparr>columns = cols, rows = map (reindex cols) (rows df)\<rparr>"

text \<open>The join key \<^verbatim>\<open>on=[date, time slot]\<close>; null keys match each other, as in pandas.\<close>

definition row_key :: "row \<Rightarrow> cell \<times> cell" where
  "row_key r = (cell_at r col_date, cell_at r col_time)"

definition nonkey :: "pystr list \<Rightarrow> pystr list" where
  "nonkey cols = filter (\<lambda>c. c \<noteq> col_date \<and> c \<noteq> col_time) cols"

text \<open>
  \<^verbatim>\<open>pd.merge(L, R, on=[date, time slot], how='left')\<close>: every left row is paired with
  every right row of the same key, or once with nulls when there is none. The non-key
  columns of the two sides are disjoint in every call of the source, so no suffix is added.
\<close>

definition left_join_row :: "frame \<Rightarrow> frame \<Rightarrow> row \<Rightarrow> row list" where
  "left_join_row L R l =
     (let ms = filter (\<lambda>r. row_key r = row_key l) (rows R)
      in if ms = []
         then [reindex (columns L) l @ map (\<lambda>c. (c, Null)) (nonkey (columns R))]
         else map (\<lambda>r. reindex (columns L) l @ reindex (nonkey (columns R)) r) ms)"

definition merge_left :: "frame \<Rightarrow> frame \<Rightarrow> frame" where
  "merge_left L R =
     \<lparr>columns = columns L @ nonkey (columns R),
      rows = concat (map (left_join_row L R) (rows L))\<rparr>"

text \<open>
  \<^verbatim>\<open>how='outer'\<close>: the left join, and one more row for every right row whose key no
  left row has; it carries the right row's key and nulls in the left columns. pandas
  returns the rows of an outer join sorted by key; the order is left as above, since the
  source sorts the final table itself.
\<close>

definition right_only_row :: "frame \<Rightarrow> frame \<Rightarrow> row \<Rightarrow> row" where
  "right_only_row L R r =
     map (\<lambda>c. (c, if c = col_date \<or> c = col_time then cell_at r c else Null)) (columns L)
     @ reindex (nonkey (columns R)) r"

definition merge_outer :: "frame \<Rightarrow> frame \<Rightarrow> frame" where
  "merge_outer L R =
     \<lparr>columns = columns L @ nonkey (columns R),
      rows = concat (map (left_join_row L R) (rows L))
             @ map (right_only_row L R)
                 (filter (\<lambda>r. row_key r \<notin> set (map row_key (rows L))) (rows R))\<rparr>"

text \<open>\<^verbatim>\<open>df[c] = v\<close> for a scalar \<open>v\<close>.\<close>

definition assign_scalar :: "frame \<Rightarrow> pystr \<Rightarrow> cell \<Rightarrow> frame" where
  "assign_scalar df c v =
     \<lparr>columns = (if c \<in> set (columns df) then columns df else columns df @ [c]),
      rows = map (row_set c v) (rows df)\<rparr>"

text \<open>\<^verbatim>\<open>pd.concat([A, B], ignore_index=True)\<close>: the union of the columns, nulls where absent.\<close>

definition concat_frames :: "frame \<Rightarrow> frame \<Rightarrow> frame" where
  "concat_frames A B =
     (let cols = columns A @ filter (\<lambda>c. c \<notin> set (columns A)) (columns B)
      in \<lparr>columns = cols, rows = map (reindex cols) (rows A @ rows B)\<rparr>)"

text \<open>\<^verbatim>\<open>for col in columns: if col not in df.columns: df[col] = None\<close>\<close>

fun ensure_columns :: "pystr list \<Rightarrow> frame \<Rightarrow> frame" where
  "ensure_columns [] df = df"
| "ensure_columns (c # cs) df =
     ensure_columns cs (if c \<in> set (columns df) then df else assign_scalar df c Null)"

text \<open>\<^verbatim>\<open>df.drop(columns=cs)\<close>\<close>

definition drop_columns :: "frame \<Rightarrow> pystr list \<Rightarrow> frame" where
  "drop_columns df cs =
     \<lparr>columns = filter (\<lambda>c. c \<notin> set cs) (columns df),
      rows = map (filter (\<lambda>kv. fst kv \<notin> set cs)) (rows df)\<rparr>"

text \<open>
  \<^verbatim>\<open>sort_values\<close> puts nulls last; \<open>sort_rank\<close> is the position of one cell of a sort
  column. The three sort columns hold numbers, dates or nulls only.
\<close>

fun sort_rank :: "cell \<Rightarrow> nat \<times> rat" where
  "sort_rank (Num x) = (0, x)"
| "sort_rank (Ts t) = (0, of_int t)"
| "sort_rank c = (1, 0)"

definition sort_key_of :: "row \<Rightarrow> (nat \<times> rat) \<times> (nat \<times> rat) \<times> (nat \<times> rat)" where
  "sort_key_of r =
     (sort_rank (cell_at r col_type_sort), sort_rank (cell_at r col_date),
      sort_rank (cell_at r col_time_sort))"

text \<open>\<^verbatim>\<open>series.map({day-ahead: 0, real-time: 1})\<close>\<close>

definition type_order :: "cell \<Rightarrow> cell" where
  "type_order c =
     (if c = Str type_day_ahead then Num 0 else if c = Str type_real_time then Num 1 else Null)"

definition unified_columns :: "pystr list" where
  "unified_columns =
     [col_date, col_time, col_boundary_type, col_bidding_space, col_load, col_wind, col_solar,
      col_renewable, col_non_market, col_hydro, col_tie_line, col_online_capacity,
      col_da_price, col_rt_price, col_load_rate]"

section \<open>Boundary data: the reconciliation\<close>

record sources =
  df_load :: frame
  df_renewable :: frame
  df_disclosure :: frame
  df_tie_line :: frame
  online_capacity :: "rat option"
  df_hydro :: frame
  df_actual :: frame
  df_tie_line_rt :: frame
  df_price :: frame

text \<open>The forecast-epoch table: five successive outer joins of six sources.\<close>

definition day_ahead_merged :: "sources \<Rightarrow> frame" where
  "day_ahead_merged s =
     merge_outer
       (merge_outer
          (merge_outer
             (merge_outer
                (merge_outer
                   (project (df_load s) [col_date, col_time, col_load])
                   (project (df_renewable s)
                      [col_date, col_time, col_wind, col_solar, col_renewable]))
                (project (df_disclosure s) [col_date, col_time, col_non_market]))
             (project (df_tie_line s) [col_date, col_time, col_tie_line]))
          (project (df_hydro s) [col_date, col_time, col_hydro]))
       (project (df_price s) [col_date, col_time, col_da_price])"

definition day_ahead_data :: "sources \<Rightarrow> frame" where
  "day_ahead_data s =
     assign_scalar
       (assign_scalar (day_ahead_merged s) col_boundary_type (Str type_day_ahead))
       col_online_capacity
       (case online_capacity s of None \<Rightarrow> Null | Some x \<Rightarrow> Num x)"

text \<open>The realtime-epoch table: the actual values, left-joined with two sources.\<close>

definition real_time_data :: "sources \<Rightarrow> frame" where
  "real_time_data s =
     assign_scalar
       (merge_left
          (merge_left
             (project (df_actual s)
                [col_date, col_time, col_load, col_wind, col_solar, col_renewable, col_hydro,
                 col_non_market])
             (project (df_tie_line_rt s) [col_date, col_time, col_tie_line]))
          (project (df_price s) [col_date, col_time, col_rt_price]))
       col_boundary_type (Str type_real_time)"

definition sort_result :: "pandas \<Rightarrow> frame \<Rightarrow> frame" where
  "sort_result pd df =
     (let df1 = set_column df col_time_sort
                  (map (\<lambda>c. case strptime_hm pd c of None \<Rightarrow> Null | Some t \<Rightarrow> Ts t)
                     (col_cells df col_time));
          df2 = set_column df1 col_type_sort (map type_order (col_cells df1 col_boundary_type));
          df3 = df2\<lparr>rows := sort_key sort_key_of (rows df2)\<rparr>
      in drop_columns df3 [col_time_sort, col_type_sort])"

definition reconcile :: "pandas \<Rightarrow> sources \<Rightarrow> frame" where
  "reconcile pd s =
     sort_result pd
       (project
          (ensure_columns unified_columns (concat_frames (day_ahead_data s) (real_time_data s)))
          unified_columns)"

text \<open>
  Loading: each file is looked up in the uploaded set; a missing file ends the function
  with its name, an exception while reading or normalising a file is caught by the
  enclosing \<^verbatim>\<open>try\<close>. A file's entry is what \<^verbatim>\<open>pd.read_excel\<close> makes of it: a frame or
  an exception.
\<close>

datatype failure = Missing pystr | Raised error

type_synonym files = "pystr \<Rightarrow> (error + frame) option"

definition fbind :: "failure + 'a \<Rightarrow> ('a \<Rightarrow> failure + 'b) \<Rightarrow> failure + 'b" where
  "fbind m f = (case m of Inl e \<Rightarrow> Inl e | Inr x \<Rightarrow> f x)"

definition require :: "files \<Rightarrow> pystr \<Rightarrow> (frame \<Rightarrow> error + 'a) \<Rightarrow> failure + 'a" where
  "require fs name load =
     (case fs name of
        None \<Rightarrow> Inl (Missing name)
      | Some content \<Rightarrow>
          (case ebind content load of Inl e \<Rightarrow> Inl (Raised e) | Inr x \<Rightarrow> Inr x))"

definition load_sources :: "pandas \<Rightarrow> files \<Rightarrow> failure + sources" where
  "load_sources pd fs =
     fbind (require fs file_load (load_forecast pd)) (\<lambda>l.
     fbind (require fs file_renewable (load_renewable pd)) (\<lambda>r.
     fbind (require fs file_disclosure (load_disclosure pd)) (\<lambda>d.
     fbind (require fs file_tie_line (load_tie_line pd)) (\<lambda>t.
     fbind (require fs file_clearing (load_clearing pd)) (\<lambda>oc.
     fbind (require fs file_hydro (load_hydro pd)) (\<lambda>h.
     fbind (require fs file_actual (load_actual pd)) (\<lambda>a.
     fbind (require fs file_tie_line_rt (load_tie_line pd)) (\<lambda>trt.
     fbind (require fs file_price (load_price pd)) (\<lambda>p.
     Inr \<lparr>df_load = l, df_renewable = r, df_disclosure = d, df_tie_line = t,
          online_capacity = oc, df_hydro = h, df_actual = a, df_tie_line_rt = trt,
          df_price = p\<rparr>)))))))))"

text \<open>
  \<^verbatim>\<open>preprocess_boundary_files(files_dict)\<close> returns the pair of the unified table and
  the error message, one of them \<^verbatim>\<open>None\<close>.
\<close>

datatype message = MissingFile pystr | ProcessingError error

definition preprocess_boundary_files :: "pandas \<Rightarrow> files \<Rightarrow> frame option \<times> message option" where
  "preprocess_boundary_files pd fs =
     (case load_sources pd fs of
        Inl (Missing name) \<Rightarrow> (None, Some (MissingFile name))
      | Inl (Raised e) \<Rightarrow> (None, Some (ProcessingError e))
      | Inr s \<Rightarrow> (Some (reconcile pd s), None))"

text \<open>
  \<^verbatim>\<open>preprocess_data()\<close> reads the same nine files from a directory and has no
  \<^verbatim>\<open>try\<close>: a missing file or a failing normalisation raises.
\<close>

definition preprocess_data :: "pandas \<Rightarrow> files \<Rightarrow> error + frame" where
  "preprocess_data pd fs =
     (case load_sources pd fs of
        Inl (Missing name) \<Rightarrow> Inl (FileNotFoundError name)
      | Inl (Raised e) \<Rightarrow> Inl e
      | Inr s \<Rightarrow> Inr (reconcile pd s))"


section \<open>Boundary data: the order of the file checks\<close>

text \<open>The nine required files in the order in which the source looks them up.\<close>

definition required_files :: "pystr list" where
  "required_files =
     [file_load, file_renewable, file_disclosure, file_tie_line, file_clearing, file_hydro,
      file_actual, file_tie_line_rt, file_price]"

text \<open>
  For each required file, in that order: \<open>None\<close> when it is present and is read and
  normalised without an exception, otherwise what goes wrong with it.
\<close>

definition status :: "failure + 'a \<Rightarrow> failure option" where
  "status m = (case m of Inl e \<Rightarrow> Some e | Inr x \<Rightarrow> None)"

definition load_status :: "pandas \<Rightarrow> files \<Rightarrow> (pystr \<times> failure option) list" where
  "load_status pd fs =
     [(file_load, status (require fs file_load (load_forecast pd))),
      (file_renewable, status (require fs file_renewable (load_renewable pd))),
      (file_disclosure, status (require fs file_disclosure (load_disclosure pd))),
      (file_tie_line, status (require fs file_tie_line (load_tie_line pd))),
      (file_clearing, status (require fs file_clearing (load_clearing pd))),
      (file_hydro, status (require fs file_hydro (load_hydro pd))),
      (file_actual, status (require fs file_actual (load_actual pd))),
      (file_tie_line_rt, status (require fs file_tie_line_rt (load_tie_line pd))),
      (file_price, status (require fs file_price (load_price pd)))]"

text \<open>
  An uploaded set that holds only the load forecast file, whose sheet has a single column:
  the other eight files are missing.
\<close>

definition one_column_upload :: files where
  "one_column_upload =
     (\<lambda>name. if name = file_load then Some (Inr \<lparr>columns = [[0x41]], rows = []\<rparr>) else None)"

text \<open>An uploaded set that holds no file at all.\<close>

definition empty_upload :: files where
  "empty_upload = (\<lambda>name. None)"

section \<open>Boundary data: a sample upload\<close>

text \<open>A sheet from its header and its rows of cells; the header \<open>A, B, C, ...\<close>.\<close>

definition table :: "pystr list \<Rightarrow> cell list list \<Rightarrow> frame" where
  "table cols rs = \<lparr>columns = cols, rows = map (zip cols) rs\<rparr>"

definition letters :: "pystr list" where
  "letters =
     [[0x41], [0x42], [0x43], [0x44], [0x45], [0x46], [0x47], [0x48], [0x49], [0x4a], [0x4b],
      [0x4c]]"

definition abc :: "nat \<Rightarrow> pystr list" where
  "abc n = take n letters"

text \<open>The time slot \<open>00:15\<close> and the clearing summary text \<open><label>42340.00MW\<close>.\<close>

definition slot_0015 :: pystr where
  "slot_0015 = [0x30, 0x30, 0x3a, 0x31, 0x35]"

definition clearing_text :: pystr where
  "clearing_text = capacity_label @ [0x34, 0x32, 0x33, 0x34, 0x30, 0x2e, 0x30, 0x30] @ unit_mw"

text \<open>
  Nine sheets. Each forecast source has one data row, on six different dates, so that no
  two forecast sources share a (date, time slot) key; the first row of a positional sheet
  is the units row that the source drops.
\<close>

definition sheet_load :: frame where
  "sheet_load = table (abc 4)
     [[Null, Null, Null, Null],
      [Num 1, Ts 1, Str slot_0015, Num 20000]]"

definition sheet_renewable :: frame where
  "sheet_renewable = table (abc 6)
     [[Null, Null, Null, Null, Null, Null],
      [Num 1, Ts 2, Str slot_0015, Num 5000, Num 3000, Num 2000]]"

definition sheet_disclosure :: frame where
  "sheet_disclosure = table (abc 4)
     [[Null, Null, Null, Null],
      [Num 1, Ts 3, Str slot_0015, Num 700]]"

definition sheet_tie_line :: frame where
  "sheet_tie_line = table (abc 5)
     [[Null, Null, Null, Null, Null],
      [Num 1, Str label_total, Ts 4, Str slot_0015, Num 900],
      [Num 2, Str [0x41], Ts 4, Str slot_0015, Num 100]]"

definition sheet_clearing :: frame where
  "sheet_clearing = table (abc 3)
     [[Null, Null, Null],
      [Num 1, Ts 1, Str clearing_text]]"

definition sheet_hydro :: frame where
  "sheet_hydro = table (abc 4)
     [[Null, Null, Null, Null],
      [Num 1, Ts 5, Str slot_0015, Num 300]]"

definition sheet_actual :: frame where
  "sheet_actual = table (abc 12)
     [[Null, Null, Null, Null, Null, Null, Null, Null, Null, Null, Null, Null],
      [Num 1, Ts 1, Str slot_0015, Num 21000, Null, Num 3100, Num 2100, Num 5200, Num 310,
       Null, Null, Num 710]]"

definition sheet_tie_line_rt :: frame where
  "sheet_tie_line_rt = table (abc 5)
     [[Null, Null, Null, Null, Null],
      [Num 1, Str label_total, Ts 1, Str slot_0015, Num 950]]"

definition sheet_price :: frame where
  "sheet_price = table [col_seq, col_date, col_time, col_rt_price, col_da_price]
     [[Num 1, Ts 6, Str slot_0015, Num 310, Num 300],
      [Str [0x41], Null, Null, Num 305, Num 295]]"

definition sample_upload :: files where
  "sample_upload =
     map_of
       [(file_load, Inr sheet_load), (file_renewable, Inr sheet_renewable),
        (file_disclosure, Inr sheet_disclosure), (file_tie_line, Inr sheet_tie_line),
        (file_clearing, Inr sheet_clearing), (file_hydro, Inr sheet_hydro),
        (file_actual, Inr sheet_actual), (file_tie_line_rt, Inr sheet_tie_line_rt),
        (file_price, Inr sheet_price)]"

section \<open>Boundary data: the outer join as the specification words it\<close>

text \<open>
  The forecast partition of a unified table, and the cardinality of the full outer join of
  a list of tables on the (date, time slot) key: a key that occurs in some table occurs
  in the join once for every combination of rows of that key, a table without the key
  contributing one null-filled combination.
\<close>

definition forecast_partition :: "frame \<Rightarrow> row list" where
  "forecast_partition df =
     filter (\<lambda>r. cell_at r col_boundary_type = Str type_day_ahead) (rows df)"

definition key_count :: "frame \<Rightarrow> cell \<times> cell \<Rightarrow> nat" where
  "key_count f k = length (filter (\<lambda>r. row_key r = k) (rows f))"

definition outer_join_count :: "frame list \<Rightarrow> cell \<times> cell \<Rightarrow> nat" where
  "outer_join_count ts k =
     (if list_all (\<lambda>t. key_count t k = 0) ts then 0
      else prod_list (map (\<lambda>t. max 1 (key_count t k)) ts))"

definition outer_join_keys :: "frame list \<Rightarrow> (cell \<times> cell) list" where
  "outer_join_keys ts = remdups (concat (map (\<lambda>t. map row_key (rows t)) ts))"

definition outer_join_cardinality :: "frame list \<Rightarrow> nat" where
  "outer_join_cardinality ts = sum_list (map (outer_join_count ts) (outer_join_keys ts))"

text \<open>The six normalised tables that the forecast partition is joined from.\<close>

definition forecast_sources :: "sources \<Rightarrow> frame list" where
  "forecast_sources s =
     [df_load s, df_renewable s, df_disclosure s, df_tie_line s, df_hydro s, df_price s]"

text \<open>The columns that the properties of the unified table read, and the key columns.\<close>

definition tracked :: "pystr set" where
  "tracked = {col_date, col_time, col_boundary_type, col_online_capacity}"

definition has_keys :: "frame \<Rightarrow> bool" where
  "has_keys f = (col_date \<in> set (columns f) \<and> col_time \<in> set (columns f))"

section \<open>Properties of the filter\<close>

lemma ebind_Inr_iff: "ebind m f = Inr y \<longleftrightarrow> (\<exists>x. m = Inr x \<and> f x = Inr y)"
  by (cases m) (simp_all add: ebind_def)

lemma ebind_Inr [simp]: "ebind (Inr x) f = f x"
  by (simp add: ebind_def)

lemma ebind_Inl [simp]: "ebind (Inl e) f = Inl e"
  by (simp add: ebind_def)

lemma zip_map_filter: "map fst (filter snd (zip xs (map p xs))) = filter p xs"
  by (induction xs) auto

lemma select_rows_col:
  "select_rows df (map p (col_cells df c)) = df\<lparr>rows := filter (\<lambda>r. p (cell_at r c)) (rows df)\<rparr>"
  using zip_map_filter [of "rows df" "\<lambda>r. p (cell_at r c)"]
  by (simp add: select_rows_def col_cells_def o_def)

lemma mapM_select_map:
  "mapM f (map g xs) = Inr bs \<Longrightarrow>
     map fst (filter snd (zip xs bs)) = filter (\<lambda>x. f (g x) = Inr True) xs"
  by (induction xs arbitrary: bs) (auto split: sum.splits)

lemma mapM_Inr_all: "mapM f xs = Inr ys \<Longrightarrow> \<forall>x\<in>set xs. \<not> isl (f x)"
  by (induction xs arbitrary: ys) (auto split: sum.splits)

lemma mapM_total: "\<forall>x\<in>set xs. \<not> isl (f x) \<Longrightarrow> \<exists>ys. mapM f xs = Inr ys"
proof (induction xs)
  case Nil
  then show ?case by simp
next
  case (Cons x xs)
  then obtain ys where ys: "mapM f xs = Inr ys" by auto
  from Cons.prems obtain y where "f x = Inr y" by (cases "f x") auto
  with ys show ?case by simp
qed

lemma cmp_price_isl: "isl (cmp_price rel m v) \<longleftrightarrow> \<not> numeric v"
  by (cases v) (simp_all add: numeric_def)

lemma price_mask_Inr:
  assumes "price_mask df c rel m = Inr f"
  shows "c \<in> set (columns df)" and "columns f = columns df"
    and "rows f = filter (\<lambda>r. cmp_price rel m (cell_at r c) = Inr True) (rows df)"
    and "\<forall>r\<in>set (rows df). numeric (cell_at r c)"
proof -
  from assms show c: "c \<in> set (columns df)"
    by (auto simp: price_mask_def get_col_def split: if_splits)
  with assms obtain bs where
    bs: "mapM (cmp_price rel m) (map (\<lambda>r. cell_at r c) (rows df)) = Inr bs"
    and f: "f = select_rows df bs"
    by (auto simp: price_mask_def get_col_def ebind_Inr_iff col_cells_def)
  show "columns f = columns df" by (simp add: f select_rows_def)
  show "rows f = filter (\<lambda>r. cmp_price rel m (cell_at r c) = Inr True) (rows df)"
    using mapM_select_map [OF bs] by (simp add: f select_rows_def)
  show "\<forall>r\<in>set (rows df). numeric (cell_at r c)"
    using mapM_Inr_all [OF bs] by (simp add: cmp_price_isl)
qed

lemma price_mask_total:
  assumes "c \<in> set (columns df)" and "\<forall>r\<in>set (rows df). numeric (cell_at r c)"
  shows "\<exists>f. price_mask df c rel m = Inr f"
proof -
  have "\<forall>v\<in>set (col_cells df c). \<not> isl (cmp_price rel m v)"
    using assms(2) by (auto simp: col_cells_def cmp_price_isl)
  then obtain bs where "mapM (cmp_price rel m) (col_cells df c) = Inr bs"
    using mapM_total by blast
  then show ?thesis using assms(1) by (simp add: price_mask_def get_col_def)
qed

lemma cmp_price_True:
  "cmp_price rel m v = Inr True \<longleftrightarrow> (case v of Num x \<Rightarrow> rel x m | _ \<Rightarrow> False)"
  by (cases v) simp_all

lemma price_bounds_Inr:
  assumes "price_bounds q c df = Inr f"
  shows "columns f = columns df"
    and "rows f = filter (\<lambda>r. price_ok q (cell_at r c)) (rows df)"
    and "min_price q \<noteq> None \<or> max_price q \<noteq> None \<Longrightarrow>
           c \<in> set (columns df) \<and> (\<forall>r\<in>set (rows df). numeric (cell_at r c))"
proof -
  from assms obtain f1 where
    f1: "(case min_price q of None \<Rightarrow> Inr df
          | Some m \<Rightarrow> if include_min_boundary q then price_mask df c (\<lambda>x y. x \<ge> y) m
                      else price_mask df c (\<lambda>x y. x > y) m) = Inr f1"
    and f: "(case max_price q of None \<Rightarrow> Inr f1
          | Some m \<Rightarrow> if include_max_boundary q then price_mask f1 c (\<lambda>x y. x \<le> y) m
                      else price_mask f1 c (\<lambda>x y. x < y) m) = Inr f"
    by (auto simp: price_bounds_def ebind_Inr_iff)
  have c1: "columns f1 = columns df"
    using f1 by (auto split: option.splits if_splits dest: price_mask_Inr(2))
  have r1: "rows f1 = filter (\<lambda>r. case min_price q of None \<Rightarrow> True
        | Some m \<Rightarrow> (case cell_at r c of Num x \<Rightarrow> (if include_min_boundary q then x \<ge> m else x > m)
                     | _ \<Rightarrow> False)) (rows df)"
  proof (cases "min_price q")
    case None
    with f1 show ?thesis by simp
  next
    case (Some m)
    show ?thesis
    proof (cases "include_min_boundary q")
      case True
      with Some f1 have "price_mask df c (\<lambda>x y. x \<ge> y) m = Inr f1" by simp
      from price_mask_Inr(3) [OF this] show ?thesis
        using Some True by (simp add: cmp_price_True cong: cell.case_cong)
    next
      case False
      with Some f1 have "price_mask df c (\<lambda>x y. x > y) m = Inr f1" by simp
      from price_mask_Inr(3) [OF this] show ?thesis
        using Some False by (simp add: cmp_price_True cong: cell.case_cong)
    qed
  qed
  have c2: "columns f = columns f1"
    using f by (auto split: option.splits if_splits dest: price_mask_Inr(2))
  have r2: "rows f = filter (\<lambda>r. case max_price q of None \<Rightarrow> True
        | Some m \<Rightarrow> (case cell_at r c of Num x \<Rightarrow> (if include_max_boundary q then x \<le> m else x < m)
                     | _ \<Rightarrow> False)) (rows f1)"
  proof (cases "max_price q")
    case None
    with f show ?thesis by simp
  next
    case (Some m)
    show ?thesis
    proof (cases "include_max_boundary q")
      case True
      with Some f have "price_mask f1 c (\<lambda>x y. x \<le> y) m = Inr f" by simp
      from price_mask_Inr(3) [OF this] show ?thesis
        using Some True by (simp add: cmp_price_True cong: cell.case_cong)
    next
      case False
      with Some f have "price_mask f1 c (\<lambda>x y. x < y) m = Inr f" by simp
      from price_mask_Inr(3) [OF this] show ?thesis
        using Some False by (simp add: cmp_price_True cong: cell.case_cong)
    qed
  qed
  show "columns f = columns df" using c1 c2 by simp
  show "rows f = filter (\<lambda>r. price_ok q (cell_at r c)) (rows df)"
    unfolding r2 r1 price_ok_def by (simp add: conj_commute)
  show "c \<in> set (columns df) \<and> (\<forall>r\<in>set (rows df). numeric (cell_at r c))"
    if "min_price q \<noteq> None \<or> max_price q \<noteq> None"
  proof (cases "min_price q")
    case (Some m)
    then show ?thesis using f1
      by (auto split: if_splits dest: price_mask_Inr(1) price_mask_Inr(4))
  next
    case None
    with that obtain m where m: "max_price q = Some m" by auto
    from None f1 have "f1 = df" by simp
    with m f show ?thesis
      by (auto split: if_splits dest: price_mask_Inr(1) price_mask_Inr(4))
  qed
qed


lemma price_bounds_total:
  assumes "min_price q \<noteq> None \<or> max_price q \<noteq> None \<Longrightarrow>
             c \<in> set (columns df) \<and> (\<forall>r\<in>set (rows df). numeric (cell_at r c))"
  shows "\<exists>f. price_bounds q c df = Inr f"
proof -
  have "\<exists>f1. (case min_price q of None \<Rightarrow> Inr df
          | Some m \<Rightarrow> if include_min_boundary q then price_mask df c (\<lambda>x y. x \<ge> y) m
                      else price_mask df c (\<lambda>x y. x > y) m) = Inr f1"
    using assms by (auto split: option.splits intro: price_mask_total)
  then obtain f1 where
    f1: "(case min_price q of None \<Rightarrow> Inr df
          | Some m \<Rightarrow> if include_min_boundary q then price_mask df c (\<lambda>x y. x \<ge> y) m
                      else price_mask df c (\<lambda>x y. x > y) m) = Inr f1" ..
  have c1: "columns f1 = columns df"
    using f1 by (auto split: option.splits if_splits dest: price_mask_Inr(2))
  have s1: "set (rows f1) \<subseteq> set (rows df)"
    using f1 by (auto split: option.splits if_splits dest: price_mask_Inr(3))
  have "\<exists>f. (case max_price q of None \<Rightarrow> Inr f1
          | Some m \<Rightarrow> if include_max_boundary q then price_mask f1 c (\<lambda>x y. x \<le> y) m
                      else price_mask f1 c (\<lambda>x y. x < y) m) = Inr f"
  proof (cases "max_price q")
    case None
    then show ?thesis by simp
  next
    case (Some m)
    with assms c1 s1 have "c \<in> set (columns f1)" "\<forall>r\<in>set (rows f1). numeric (cell_at r c)"
      by auto
    then show ?thesis using Some by (auto intro: price_mask_total)
  qed
  with f1 show ?thesis by (auto simp: price_bounds_def)
qed

lemma date_select_Inr:
  assumes "(case sd of
              None \<Rightarrow> Inr df
            | Some s \<Rightarrow>
                ebind (to_datetime pd (Str s)) (\<lambda>b.
                Inr (select_rows df (map (\<lambda>c. rel (to_datetime_coerce pd c) b)
                       (col_cells df dc))))) = Inr f"
  shows "columns f = columns df \<and>
     rows f = filter (\<lambda>r. case sd of None \<Rightarrow> True
             | Some s \<Rightarrow> rel (to_datetime_coerce pd (cell_at r dc)) (date_bound pd s)) (rows df) \<and>
     (case sd of None \<Rightarrow> True | Some s \<Rightarrow> \<not> isl (to_datetime pd (Str s)))"
proof (cases sd)
  case None
  with assms have "f = df" by simp
  then show ?thesis using None by simp
next
  case (Some s)
  with assms obtain b where b: "to_datetime pd (Str s) = Inr b"
    and f: "f = select_rows df (map (\<lambda>c. rel (to_datetime_coerce pd c) b) (col_cells df dc))"
    by (auto simp: ebind_Inr_iff)
  from b have db: "date_bound pd s = b" by (simp add: date_bound_def)
  have "columns f = columns df" by (simp add: f select_rows_def)
  moreover have "rows f = filter (\<lambda>r. case sd of None \<Rightarrow> True
             | Some s \<Rightarrow> rel (to_datetime_coerce pd (cell_at r dc)) (date_bound pd s)) (rows df)"
    by (simp add: f select_rows_col Some db)
  ultimately show ?thesis by (simp add: Some b)
qed

lemma date_stage_Inr:
  assumes "date_stage pd a df = Inr (w, f)"
  shows "columns f = columns df"
    and "rows f = filter (date_ok pd a (columns df)) (rows df)"
    and "date_column a \<in> set (columns df) \<Longrightarrow>
           (case start_date a of None \<Rightarrow> True | Some s \<Rightarrow> \<not> isl (to_datetime pd (Str s))) \<and>
           (case end_date a of None \<Rightarrow> True | Some s \<Rightarrow> \<not> isl (to_datetime pd (Str s)))"
proof -
  have "columns f = columns df \<and> rows f = filter (date_ok pd a (columns df)) (rows df) \<and>
        (date_column a \<in> set (columns df) \<longrightarrow>
           (case start_date a of None \<Rightarrow> True | Some s \<Rightarrow> \<not> isl (to_datetime pd (Str s))) \<and>
           (case end_date a of None \<Rightarrow> True | Some s \<Rightarrow> \<not> isl (to_datetime pd (Str s))))"
  proof (cases "date_column a \<in> set (columns df)")
    case False
    with assms have "f = df" by (auto simp: date_stage_def split: if_splits)
    with False show ?thesis by (simp add: date_ok_def)
  next
    case True
    with assms obtain f1 where
      f1: "(case start_date a of
              None \<Rightarrow> Inr df
            | Some s \<Rightarrow>
                ebind (to_datetime pd (Str s)) (\<lambda>b.
                Inr (select_rows df (map (\<lambda>c. ts_ge (to_datetime_coerce pd c) b)
                       (col_cells df (date_column a)))))) = Inr f1"
      and f: "(case end_date a of
              None \<Rightarrow> Inr f1
            | Some s \<Rightarrow>
                ebind (to_datetime pd (Str s)) (\<lambda>b.
                Inr (select_rows f1 (map (\<lambda>c. ts_le (to_datetime_coerce pd c) b)
                       (col_cells f1 (date_column a)))))) = Inr f"
      by (auto simp: date_stage_def ebind_Inr_iff)
    note s1 = date_select_Inr [OF f1] and s2 = date_select_Inr [OF f]
    have "rows f = filter (\<lambda>r.
        (case start_date a of None \<Rightarrow> True
         | Some s \<Rightarrow> ts_ge (to_datetime_coerce pd (cell_at r (date_column a))) (date_bound pd s)) \<and>
        (case end_date a of None \<Rightarrow> True
         | Some s \<Rightarrow> ts_le (to_datetime_coerce pd (cell_at r (date_column a))) (date_bound pd s)))
        (rows df)"
      using s1 s2 by (simp add: conj_commute)
    also have "\<dots> = filter (date_ok pd a (columns df)) (rows df)"
      using True by (intro filter_cong) (simp_all add: date_ok_def)
    finally show ?thesis using s1 s2 True by simp
  qed
  then show "columns f = columns df"
    and "rows f = filter (date_ok pd a (columns df)) (rows df)"
    and "date_column a \<in> set (columns df) \<Longrightarrow>
           (case start_date a of None \<Rightarrow> True | Some s \<Rightarrow> \<not> isl (to_datetime pd (Str s))) \<and>
           (case end_date a of None \<Rightarrow> True | Some s \<Rightarrow> \<not> isl (to_datetime pd (Str s)))"
    by simp_all
qed

lemma date_stage_total:
  assumes "date_column a \<in> set (columns df) \<Longrightarrow>
           (case start_date a of None \<Rightarrow> True | Some s \<Rightarrow> \<not> isl (to_datetime pd (Str s))) \<and>
           (case end_date a of None \<Rightarrow> True | Some s \<Rightarrow> \<not> isl (to_datetime pd (Str s)))"
  shows "\<exists>w f. date_stage pd a df = Inr (w, f)"
proof (cases "date_column a \<in> set (columns df)")
  case False
  then show ?thesis by (simp add: date_stage_def)
next
  case True
  have ok: "\<not> isl x \<Longrightarrow> \<exists>v. x = Inr v" for x :: "error + int option"
    by (cases x) auto
  from assms [OF True] show ?thesis
    using True
    by (auto simp: date_stage_def split: option.splits dest!: ok)
qed


lemma eq_mask_simps:
  "columns (eq_mask df c name) = columns df"
  "rows (eq_mask df c name) = filter (\<lambda>r. cell_at r c = Str name) (rows df)"
  by (simp_all add: eq_mask_def select_rows_col)

lemma name_stage_rows:
  "rows (case p of Some name \<Rightarrow> if c \<in> set (columns df) then eq_mask df c name else df
         | None \<Rightarrow> df) = filter (name_ok p c (columns df)) (rows df)"
  by (cases p) (auto simp: eq_mask_simps name_ok_def intro: filter_cong)

lemma name_stage_columns:
  "columns (case p of Some name \<Rightarrow> if c \<in> set (columns df) then eq_mask df c name else df
         | None \<Rightarrow> df) = columns df"
  by (cases p) (simp_all add: eq_mask_simps)

lemma company_stage_simps:
  "columns (company_stage a df) = columns df"
  "rows (company_stage a df) = filter (name_ok (company_name a) col_company (columns df)) (rows df)"
  unfolding company_stage_def by (rule name_stage_columns, rule name_stage_rows)

lemma unit_stage_simps:
  "columns (unit_stage a df) = columns df"
  "rows (unit_stage a df) = filter (name_ok (unit_name a) col_unit (columns df)) (rows df)"
  unfolding unit_stage_def by (rule name_stage_columns, rule name_stage_rows)

lemma unit_dimension_stage_simps:
  "columns (snd (unit_dimension_stage a df)) = columns df"
  "rows (snd (unit_dimension_stage a df)) =
     filter (name_ok (unit_dimension a) col_unit_dimension (columns df)) (rows df)"
  by (cases "unit_dimension a";
      auto simp: unit_dimension_stage_def eq_mask_simps name_ok_def intro: filter_cong)+

lemma filter_by_price_range_alt:
  "filter_by_price_range pd df a =
     ebind (price_bounds a (price_column a) df) (\<lambda>f1.
     ebind (date_stage pd a f1) (\<lambda>p.
     Inr (fst p @ fst (unit_dimension_stage a (unit_stage a (company_stage a (snd p)))),
          snd (unit_dimension_stage a (unit_stage a (company_stage a (snd p)))))))"
  by (simp add: filter_by_price_range_def Let_def case_prod_beta split_def)

lemma filter_by_price_range_Inr:
  assumes "filter_by_price_range pd df a = Inr (w, f)"
  shows "columns f = columns df"
    and "rows f = filter (passes_filter pd a (columns df)) (rows df)"
    and "filter_defined pd df a"
proof -
  from assms obtain f1 w1 f2 where
    f1: "price_bounds a (price_column a) df = Inr f1"
    and f2: "date_stage pd a f1 = Inr (w1, f2)"
    and f: "f = snd (unit_dimension_stage a (unit_stage a (company_stage a f2)))"
    by (auto simp: filter_by_price_range_alt ebind_Inr_iff)
  note p = price_bounds_Inr [OF f1] and d = date_stage_Inr [OF f2]
  have c2: "columns f2 = columns df" using p(1) d(1) by simp
  show "columns f = columns df"
    by (simp add: f unit_dimension_stage_simps unit_stage_simps company_stage_simps c2)
  have "rows f = filter (\<lambda>r. ((((price_ok a (cell_at r (price_column a)) \<and>
        date_ok pd a (columns df) r) \<and>
        name_ok (company_name a) col_company (columns df) r) \<and>
        name_ok (unit_name a) col_unit (columns df) r) \<and>
        name_ok (unit_dimension a) col_unit_dimension (columns df) r)) (rows df)"
    by (simp add: f unit_dimension_stage_simps unit_stage_simps company_stage_simps c2
        d(2) p(1) p(2) conj_commute)
  also have "\<dots> = filter (passes_filter pd a (columns df)) (rows df)"
    by (intro filter_cong) (auto simp: passes_filter_def)
  finally show "rows f = filter (passes_filter pd a (columns df)) (rows df)" .
  show "filter_defined pd df a"
    using p(3) d(3) p(1) by (auto simp: filter_defined_def list_all_iff)
qed

lemma filter_by_price_range_total:
  assumes "filter_defined pd df a"
  shows "\<exists>w f. filter_by_price_range pd df a = Inr (w, f)"
proof -
  have "\<exists>f1. price_bounds a (price_column a) df = Inr f1"
    using assms by (intro price_bounds_total) (auto simp: filter_defined_def list_all_iff)
  then obtain f1 where f1: "price_bounds a (price_column a) df = Inr f1" ..
  have "columns f1 = columns df" by (rule price_bounds_Inr(1) [OF f1])
  then have "\<exists>w1 f2. date_stage pd a f1 = Inr (w1, f2)"
    using assms by (intro date_stage_total) (auto simp: filter_defined_def)
  then obtain w1 f2 where "date_stage pd a f1 = Inr (w1, f2)" by blast
  with f1 show ?thesis
    by (simp add: filter_by_price_range_alt)
qed

lemmas col_defs = col_date_def col_company_def col_unit_def col_unit_dimension_def
  col_da_node_price_def col_rt_node_price_def col_inter_da_price_def col_inter_da_power_def
  col_inter_rt_power_def col_inter_rt_price_def col_da_power_def col_intra_ml_power_def
  col_intra_ml_price_def col_inter_ml_power_def col_inter_ml_price_def


lemmas filter_eval = filter_by_price_range_alt price_bounds_def mk_args_def
  price_mask_def get_col_def col_cells_def cell_at_def
  select_rows_def date_stage_def company_stage_def unit_stage_def unit_dimension_stage_def
  eq_mask_def hours_of_def to_datetime_coerce_def col_defs

lemma mk_args_simps:
  "min_price (mk_args q pc) = min_price q"
  "max_price (mk_args q pc) = max_price q"
  "start_date (mk_args q pc) = start_date q"
  "end_date (mk_args q pc) = end_date q"
  "company_name (mk_args q pc) = company_name q"
  "unit_name (mk_args q pc) = unit_name q"
  "unit_dimension (mk_args q pc) = unit_dimension q"
  "include_min_boundary (mk_args q pc) = include_min_boundary q"
  "include_max_boundary (mk_args q pc) = include_max_boundary q"
  "price_column (mk_args q pc) = pc"
  "date_column (mk_args q pc) = col_date"
  by (simp_all add: mk_args_def)

text \<open>
  Claim C10: for the same arguments, whenever \<^verbatim>\<open>calculate_realtime_hours\<close> returns a
  value, \<^verbatim>\<open>calculate_daily_forward_hours\<close> returns one too and metric 2 is at most
  metric 1: the second-stage filter on the intraday price only removes rows.
\<close>

theorem realtime_hours_le_daily_forward_hours:
  assumes "calculate_realtime_hours pd df q = Inr h2"
  shows "\<exists>h1. calculate_daily_forward_hours pd df q = Inr h1 \<and> h2 \<le> h1"
proof -
  from assms obtain w f f2 where
    f: "filter_by_price_range pd df (mk_args q col_da_node_price) = Inr (w, f)"
    and f2: "(if col_rt_node_price \<in> set (columns f)
              then price_bounds q col_rt_node_price f else Inr f) = Inr f2"
    and h2: "h2 = hours_of f2"
    by (auto simp: calculate_realtime_hours_def ebind_Inr_iff)
  have "rows f2 = filter (\<lambda>r. price_ok q (cell_at r col_rt_node_price)) (rows f) \<or> f2 = f"
    using f2 by (auto split: if_splits dest: price_bounds_Inr(2))
  then have "length (rows f2) \<le> length (rows f)" by auto
  then have "hours_of f2 \<le> hours_of f"
    by (simp add: hours_of_def divide_right_mono)
  with f h2 show ?thesis by (simp add: calculate_daily_forward_hours_def)
qed

theorem realtime_hours_le_daily_forward_hours_witness:
  "calculate_realtime_hours sample_pandas price_frame (no_query\<lparr>min_price := Some 100\<rparr>) = Inr (1/4) \<and>
   calculate_daily_forward_hours sample_pandas price_frame (no_query\<lparr>min_price := Some 100\<rparr>) = Inr (3/4)"
proof -
  have rt: "calculate_realtime_hours sample_pandas price_frame (no_query\<lparr>min_price := Some 100\<rparr>) = Inr (1/4)"
    by (simp add: calculate_realtime_hours_def filter_eval no_query_def price_frame_def
        price_row_def sample_pandas_def)
  have fw: "calculate_daily_forward_hours sample_pandas price_frame (no_query\<lparr>min_price := Some 100\<rparr>) = Inr (3/4)"
    by (simp add: calculate_daily_forward_hours_def filter_eval no_query_def price_frame_def
        price_row_def sample_pandas_def)
  from realtime_hours_le_daily_forward_hours [OF rt] rt fw show ?thesis by simp
qed


lemmas sample_defs = no_query_def price_frame_def price_row_def sample_pandas_def
  forecast_only_frame_def default_args_def

lemmas spec_eval = spec_realtime_hours_def passes_filter_def price_ok_def date_ok_def
  name_ok_def filter_defined_def numeric_def date_bound_def



text \<open>
  Claim C2 at a failing input: on a frame without the price column
  (the default \<^verbatim>\<open>price_column\<close>) and with \<^verbatim>\<open>min_price=100\<close>, the filter raises
  KeyError instead of leaving the frame unfiltered with a warning.
\<close>

theorem price_filter_absent_column_raises:
  "filter_by_price_range sample_pandas forecast_only_frame (default_args\<lparr>min_price := Some 100\<rparr>)
     = Inl (KeyError col_inter_da_price)"
  by (simp add: filter_eval sample_defs)

lemma filter_defined_drop_min:
  "filter_defined pd df a \<Longrightarrow> filter_defined pd df (a\<lparr>min_price := None\<rparr>)"
  by (simp add: filter_defined_def)

lemma filter_defined_drop_max:
  "filter_defined pd df a \<Longrightarrow> filter_defined pd df (a\<lparr>max_price := None\<rparr>)"
  by (simp add: filter_defined_def)

lemma passes_filter_drop_min:
  assumes "min_price a = Some m" and "cell_at r (price_column a) = Num m"
  shows "passes_filter pd a cols r \<longleftrightarrow>
         include_min_boundary a \<and> passes_filter pd (a\<lparr>min_price := None\<rparr>) cols r"
  using assms by (auto simp: passes_filter_def price_ok_def date_ok_def split: option.splits)

lemma passes_filter_drop_max:
  assumes "max_price a = Some m" and "cell_at r (price_column a) = Num m"
  shows "passes_filter pd a cols r \<longleftrightarrow>
         include_max_boundary a \<and> passes_filter pd (a\<lparr>max_price := None\<rparr>) cols r"
  using assms by (auto simp: passes_filter_def price_ok_def date_ok_def split: option.splits)

lemma passes_filter_null:
  assumes "min_price a \<noteq> None \<or> max_price a \<noteq> None" and "cell_at r (price_column a) = Null"
  shows "\<not> passes_filter pd a cols r"
  using assms by (auto simp: passes_filter_def price_ok_def)




lemmas co_defs = co_tonghua_def co_tashan_def co_yanggao_def co_tongda_def co_wangping_def
  co_puzhou_def co_hejin_def co_linfen_def co_houma_def

lemmas metric_eval = frame_empty_def get_power_conversion_factor_def
  power_conversion_factors_def default_power_conversion_factor_def py_truediv_def
  fillna0_def series_op_def co_defs

lemma tashan_factor: "get_power_conversion_factor (Some co_tashan) = 660 / 600"
  by (simp add: metric_eval)

text \<open>
  Claim C1 as stated fails: on four quarter-hour rows of company Tashan whose day-ahead
  committed output sums to 600, \<^verbatim>\<open>calculate_daily_forward_power\<close> returns
  \<open>(600 / 4) * (660 / 600) / 1 = 165\<close>, not 660.
\<close>

theorem daily_forward_power_tashan_counterexample:
  "filter_by_price_range sample_pandas tashan_frame
      (mk_args (no_query\<lparr>company_name := Some co_tashan\<rparr>) col_da_node_price)
     = Inr ([], tashan_frame) \<and>
   length (rows tashan_frame) = 4 \<and>
   sum_cells (col_cells tashan_frame col_da_power) = Inr 600 \<and>
   calculate_daily_forward_power sample_pandas tashan_frame
     (no_query\<lparr>company_name := Some co_tashan\<rparr>) = Inr 165 \<and>
   calculate_daily_forward_power sample_pandas tashan_frame
     (no_query\<lparr>company_name := Some co_tashan\<rparr>) \<noteq> Inr 660"
  by (simp add: calculate_daily_forward_power_def filter_eval sample_defs tashan_frame_def
      tashan_row_def metric_eval)

text \<open>
  Claim C1, amended: when the filtered set has exactly four rows (one hour) of company
  Tashan and the day-ahead committed output column sums to \<open>s\<close>, metric 7 is
  \<open>(s / 4) * (660 / 600) / 1\<close>; for \<open>s = 600\<close> that is 165.
\<close>

theorem daily_forward_power_tashan:
  assumes "filter_by_price_range pd df (mk_args q col_da_node_price) = Inr (w, filtered)"
    and "length (rows filtered) = 4"
    and "col_da_power \<in> set (columns filtered)"
    and "sum_cells (col_cells filtered col_da_power) = Inr s"
    and "company_name q = Some co_tashan"
  shows "calculate_daily_forward_power pd df q = Inr (s / 4 * (660 / 600) / 1) \<and>
         (s = 600 \<longrightarrow> calculate_daily_forward_power pd df q = Inr 165)"
proof -
  from assms(2) have ne: "rows filtered \<noteq> []" by auto
  from assms(3) have nc: "columns filtered \<noteq> []" by auto
  have h: "hours_of filtered = 1" by (simp add: hours_of_def assms(2))
  have "calculate_daily_forward_power pd df q = Inr (s / 4 * (660 / 600) / 1)"
    using assms(1,3,4,5) ne nc h
    by (simp add: calculate_daily_forward_power_def frame_empty_def get_col_def
        tashan_factor py_truediv_def)
  then show ?thesis by auto
qed

theorem daily_forward_power_tashan_witness:
  "filter_by_price_range sample_pandas tashan_frame
      (mk_args (no_query\<lparr>company_name := Some co_tashan\<rparr>) col_da_node_price)
     = Inr ([], tashan_frame) \<and>
   length (rows tashan_frame) = 4 \<and>
   col_da_power \<in> set (columns tashan_frame) \<and>
   sum_cells (col_cells tashan_frame col_da_power) = Inr 600 \<and>
   calculate_daily_forward_power sample_pandas tashan_frame
     (no_query\<lparr>company_name := Some co_tashan\<rparr>) = Inr 165"
proof -
  let ?q = "no_query\<lparr>company_name := Some co_tashan\<rparr>"
  have f: "filter_by_price_range sample_pandas tashan_frame (mk_args ?q col_da_node_price)
     = Inr ([], tashan_frame)"
    by (simp add: filter_eval sample_defs tashan_frame_def tashan_row_def co_defs)
  have l: "length (rows tashan_frame) = 4" by (simp add: tashan_frame_def)
  have c: "col_da_power \<in> set (columns tashan_frame)" by (simp add: tashan_frame_def)
  have s: "sum_cells (col_cells tashan_frame col_da_power) = Inr 600"
    by (simp add: tashan_frame_def tashan_row_def col_cells_def cell_at_def col_defs)
  have n: "company_name ?q = Some co_tashan" by simp
  from daily_forward_power_tashan [OF f l c s n] f l c s show ?thesis by simp
qed


lemma series_op_map:
  "series_op f (map g xs) (map h xs) = mapM (\<lambda>x. arith f (g x) (h x)) xs"
  by (induction xs) (simp_all add: series_op_def split: sum.splits)

lemma mapM_pointwise: "\<forall>x\<in>set xs. F x = Inr (G x) \<Longrightarrow> mapM F xs = Inr (map G xs)"
  by (induction xs) simp_all

lemma sum_cells_zeros: "sum_cells (map (\<lambda>x. Num 0) xs) = Inr 0"
  by (induction xs) simp_all

lemma fillna0_col: "fillna0 (col_cells f c) = map (\<lambda>r. fill0 (cell_at r c)) (rows f)"
  by (simp add: fillna0_def col_cells_def)

lemma mult_zero_volume:
  assumes "v = Null \<or> v = Num 0" and "numeric p"
  shows "arith (*) (fill0 v) (fill0 p) = Inr (Num 0)"
  using assms by (cases p) (auto simp: numeric_def)

lemma add_zero_volume:
  assumes "v = Null \<or> v = Num 0" and "u = Null \<or> u = Num 0"
  shows "arith (+) (fill0 v) (fill0 u) = Inr (Num 0)"
  using assms by auto

lemma sum_cells_not_zero_division: "sum_cells cs \<noteq> Inl ZeroDivisionError"
  by (induction cs rule: sum_cells.induct) (auto simp: ebind_def split: sum.splits)

lemma weighted_average_zero:
  assumes v1: "\<forall>r\<in>set rs. cell_at r a1 = Null \<or> cell_at r a1 = Num 0"
    and v2: "\<forall>r\<in>set rs. cell_at r a2 = Null \<or> cell_at r a2 = Num 0"
    and p1: "\<forall>r\<in>set rs. numeric (cell_at r b1)"
    and p2: "\<forall>r\<in>set rs. numeric (cell_at r b2)"
  shows "series_op (*) (map (\<lambda>r. fill0 (cell_at r a1)) rs) (map (\<lambda>r. fill0 (cell_at r b1)) rs)
           = Inr (map (\<lambda>r. Num 0) rs)"
    and "series_op (*) (map (\<lambda>r. fill0 (cell_at r a2)) rs) (map (\<lambda>r. fill0 (cell_at r b2)) rs)
           = Inr (map (\<lambda>r. Num 0) rs)"
    and "series_op (+) (map (\<lambda>r. Num 0) rs) (map (\<lambda>r. Num 0) rs) = Inr (map (\<lambda>r. Num 0) rs)"
    and "series_op (+) (map (\<lambda>r. fill0 (cell_at r a1)) rs) (map (\<lambda>r. fill0 (cell_at r a2)) rs)
           = Inr (map (\<lambda>r. Num 0) rs)"
    and "series_op (+) (map (\<lambda>r. fill0 (cell_at r a2)) rs) (map (\<lambda>r. fill0 (cell_at r a1)) rs)
           = Inr (map (\<lambda>r. Num 0) rs)"
proof -
  show "series_op (*) (map (\<lambda>r. fill0 (cell_at r a1)) rs) (map (\<lambda>r. fill0 (cell_at r b1)) rs)
           = Inr (map (\<lambda>r. Num 0) rs)"
    unfolding series_op_map using v1 p1 by (intro mapM_pointwise) (simp add: mult_zero_volume)
  show "series_op (*) (map (\<lambda>r. fill0 (cell_at r a2)) rs) (map (\<lambda>r. fill0 (cell_at r b2)) rs)
           = Inr (map (\<lambda>r. Num 0) rs)"
    unfolding series_op_map using v2 p2 by (intro mapM_pointwise) (simp add: mult_zero_volume)
  show "series_op (+) (map (\<lambda>r. Num 0) rs) (map (\<lambda>r. Num 0) rs) = Inr (map (\<lambda>r. Num 0) rs)"
    unfolding series_op_map by (intro mapM_pointwise) simp
  show "series_op (+) (map (\<lambda>r. fill0 (cell_at r a1)) rs) (map (\<lambda>r. fill0 (cell_at r a2)) rs)
           = Inr (map (\<lambda>r. Num 0) rs)"
    unfolding series_op_map using v1 v2 by (intro mapM_pointwise) (simp add: add_zero_volume)
  show "series_op (+) (map (\<lambda>r. fill0 (cell_at r a2)) rs) (map (\<lambda>r. fill0 (cell_at r a1)) rs)
           = Inr (map (\<lambda>r. Num 0) rs)"
    unfolding series_op_map using v1 v2 by (intro mapM_pointwise) (simp add: add_zero_volume)
qed


lemma ebind_no_zero_division:
  assumes "m \<noteq> Inl ZeroDivisionError" and "\<And>x. f x \<noteq> Inl ZeroDivisionError"
  shows "ebind m f \<noteq> Inl ZeroDivisionError"
  using assms by (cases m) (simp_all add: ebind_def)

lemma get_col_no_zero_division: "get_col f c \<noteq> Inl ZeroDivisionError"
  by (simp add: get_col_def)

lemma arith_no_zero_division: "arith f x y \<noteq> Inl ZeroDivisionError"
  by (cases "(f, x, y)" rule: arith.cases) simp_all

lemma mapM_no_zero_division:
  assumes "\<And>x. F x \<noteq> Inl ZeroDivisionError"
  shows "mapM F xs \<noteq> Inl ZeroDivisionError"
  using assms by (induction xs) (auto split: sum.splits)

lemma series_op_no_zero_division: "series_op f xs ys \<noteq> Inl ZeroDivisionError"
  unfolding series_op_def by (rule mapM_no_zero_division) (simp add: case_prod_beta arith_no_zero_division)

lemma guarded_division: "(if d = 0 then Inr 0 else py_truediv n d) \<noteq> Inl ZeroDivisionError"
  by (simp add: py_truediv_def)

lemmas no_zero_division = ebind_no_zero_division get_col_no_zero_division
  series_op_no_zero_division sum_cells_not_zero_division guarded_division

lemma inter_provincial_no_zero_division:
  assumes "filter_by_price_range pd df (mk_args q pc) = Inr (w, filtered)"
  shows "calculate_inter_provincial_avg_price pd df q pc \<noteq> Inl ZeroDivisionError"
  unfolding calculate_inter_provincial_avg_price_def assms ebind_Inr prod.case Let_def
  by (intro no_zero_division)

lemma medium_long_no_zero_division:
  assumes "filter_by_price_range pd df (mk_args q pc) = Inr (w, filtered)"
  shows "calculate_medium_long_weighted_avg_price pd df q pc \<noteq> Inl ZeroDivisionError"
  unfolding calculate_medium_long_weighted_avg_price_def assms ebind_Inr prod.case Let_def
  by (intro no_zero_division)

lemma inter_provincial_zero:
  assumes f: "filter_by_price_range pd df (mk_args q pc) = Inr (w, filtered)"
    and cols: "{col_inter_da_power, col_inter_da_price, col_inter_rt_power, col_inter_rt_price}
                 \<subseteq> set (columns filtered)"
    and v: "zero_volume filtered col_inter_da_power" "zero_volume filtered col_inter_rt_power"
    and p: "numeric_column filtered col_inter_da_price" "numeric_column filtered col_inter_rt_price"
  shows "calculate_inter_provincial_avg_price pd df q pc = Inr 0"
proof -
  note z = weighted_average_zero [of "rows filtered" col_inter_da_power col_inter_rt_power
      col_inter_da_price col_inter_rt_price]
  have h: "\<forall>r\<in>set (rows filtered). cell_at r col_inter_da_power = Null \<or> cell_at r col_inter_da_power = Num 0"
    "\<forall>r\<in>set (rows filtered). cell_at r col_inter_rt_power = Null \<or> cell_at r col_inter_rt_power = Num 0"
    "\<forall>r\<in>set (rows filtered). numeric (cell_at r col_inter_da_price)"
    "\<forall>r\<in>set (rows filtered). numeric (cell_at r col_inter_rt_price)"
    using v p by (simp_all add: zero_volume_def numeric_column_def list_all_iff)
  show ?thesis
    using cols
    by (simp add: calculate_inter_provincial_avg_price_def f get_col_def fillna0_col Let_def
        z [OF h] sum_cells_zeros)
qed

lemma medium_long_zero:
  assumes f: "filter_by_price_range pd df (mk_args q pc) = Inr (w, filtered)"
    and cols: "{col_intra_ml_power, col_intra_ml_price, col_inter_ml_power, col_inter_ml_price}
                 \<subseteq> set (columns filtered)"
    and v: "zero_volume filtered col_intra_ml_power" "zero_volume filtered col_inter_ml_power"
    and p: "numeric_column filtered col_intra_ml_price" "numeric_column filtered col_inter_ml_price"
  shows "calculate_medium_long_weighted_avg_price pd df q pc = Inr 0"
proof -
  note z = weighted_average_zero [of "rows filtered" col_intra_ml_power col_inter_ml_power
      col_intra_ml_price col_inter_ml_price]
  have h: "\<forall>r\<in>set (rows filtered). cell_at r col_intra_ml_power = Null \<or> cell_at r col_intra_ml_power = Num 0"
    "\<forall>r\<in>set (rows filtered). cell_at r col_inter_ml_power = Null \<or> cell_at r col_inter_ml_power = Num 0"
    "\<forall>r\<in>set (rows filtered). numeric (cell_at r col_intra_ml_price)"
    "\<forall>r\<in>set (rows filtered). numeric (cell_at r col_inter_ml_price)"
    using v p by (simp_all add: zero_volume_def numeric_column_def list_all_iff)
  show ?thesis
    using cols
    by (simp add: calculate_medium_long_weighted_avg_price_def f get_col_def fillna0_col Let_def
        z [OF h] sum_cells_zeros)
qed




lemmas dim_defs = dim_unknown_def dim_13_def dim_24_def dim_other_def

lemma search_digits_no_digit:
  "\<forall>c\<in>set s. dv c = None \<Longrightarrow> search_digits dv s = None"
  by (induction s) simp_all

lemma search_digits_skip:
  "\<forall>c\<in>set pre. dv c = None \<Longrightarrow> search_digits dv (pre @ s) = search_digits dv s"
  by (induction pre) simp_all

lemma take_digits_run:
  assumes "\<forall>c\<in>set ds. dv c \<noteq> None" and "post = [] \<or> dv (hd post) = None"
  shows "take_digits dv (ds @ post) = List.map_filter dv ds"
  using assms
proof (induction ds)
  case Nil
  then show ?case by (cases post) (auto simp: List.map_filter_simps)
next
  case (Cons d ds)
  then show ?case by (auto simp: List.map_filter_simps)
qed

lemma search_digits_run:
  assumes "\<forall>c\<in>set pre. dv c = None" and "ds \<noteq> []" and "\<forall>c\<in>set ds. dv c \<noteq> None"
    and "post = [] \<or> dv (hd post) = None"
  shows "search_digits dv (pre @ ds @ post) = Some (List.map_filter dv ds)"
proof -
  from assms(2) obtain d ds' where ds: "ds = d # ds'" by (cases ds) auto
  with assms(3) obtain x where x: "dv d = Some x" by auto
  have "take_digits dv (ds' @ post) = List.map_filter dv ds'"
    using assms(3,4) ds by (intro take_digits_run) auto
  then show ?thesis
    using assms(1) x ds by (simp add: search_digits_skip List.map_filter_simps)
qed




lemmas file_defs = file_load_def file_renewable_def file_disclosure_def file_tie_line_def
  file_clearing_def file_hydro_def file_actual_def file_tie_line_rt_def file_price_def

lemma fbind_Inr_iff: "fbind m f = Inr y \<longleftrightarrow> (\<exists>x. m = Inr x \<and> f x = Inr y)"
  by (cases m) (simp_all add: fbind_def)

lemma require_Inr: "require fs name load = Inr x \<Longrightarrow> fs name \<noteq> None"
  by (auto simp: require_def split: option.splits)

lemma load_sources_Inr_present:
  assumes "load_sources pd fs = Inr s"
  shows "\<forall>name\<in>set required_files. fs name \<noteq> None"
  using assms
  by (auto simp: load_sources_def fbind_Inr_iff required_files_def dest!: require_Inr)

lemma preprocess_Some_iff:
  "fst (preprocess_boundary_files pd fs) \<noteq> None \<longleftrightarrow> (\<exists>s. load_sources pd fs = Inr s)"
  by (auto simp: preprocess_boundary_files_def split: sum.splits failure.splits)

lemma preprocess_message:
  "fst (preprocess_boundary_files pd fs) = None \<Longrightarrow> snd (preprocess_boundary_files pd fs) \<noteq> None"
  by (auto simp: preprocess_boundary_files_def split: sum.splits failure.splits)

lemma status_Inl: "status m = Some e \<longleftrightarrow> m = Inl e"
  by (cases m) (simp_all add: status_def)

lemma status_None: "status m = None \<longleftrightarrow> (\<exists>x. m = Inr x)"
  by (cases m) (simp_all add: status_def)

lemma find_first_failure:
  assumes "xs = pre @ (name, Some e) # post" and "\<forall>x\<in>set pre. snd x = None"
  shows "List.find (\<lambda>x. snd x \<noteq> None) xs = Some (name, Some e)"
  using assms by (induction pre arbitrary: xs) auto

lemma load_sources_find:
  assumes "List.find (\<lambda>x. snd x \<noteq> None) (load_status pd fs) = Some (name, Some e)"
  shows "load_sources pd fs = Inl e"
  using assms
  by (simp add: load_status_def load_sources_def fbind_def status_def
      split: sum.splits if_splits)

lemma load_sources_first_failure:
  assumes "load_status pd fs = pre @ (name, Some e) # post" and "\<forall>x\<in>set pre. snd x = None"
  shows "load_sources pd fs = Inl e"
  by (rule load_sources_find [OF find_first_failure [OF assms]])

text \<open>
  Claim C9, amended: when a required file is missing from the uploaded set,
  \<^verbatim>\<open>preprocess_boundary_files\<close> returns no table and an error message; and when the
  first file, in the order of the checks, that is missing or fails is a missing one, the
  message names that file.
\<close>

theorem missing_file_fails_fast:
  "((\<exists>name\<in>set required_files. fs name = None) \<longrightarrow>
      fst (preprocess_boundary_files pd fs) = None \<and>
      snd (preprocess_boundary_files pd fs) \<noteq> None) \<and>
   (load_status pd fs = pre @ (name, Some (Missing name)) # post \<and>
    (\<forall>x\<in>set pre. snd x = None) \<longrightarrow>
      preprocess_boundary_files pd fs = (None, Some (MissingFile name)))"
proof -
  have a: "fst (preprocess_boundary_files pd fs) = None \<and>
      snd (preprocess_boundary_files pd fs) \<noteq> None"
    if "\<exists>name\<in>set required_files. fs name = None"
  proof -
    have "fst (preprocess_boundary_files pd fs) = None"
      using that load_sources_Inr_present [of pd fs] preprocess_Some_iff [of pd fs] by blast
    then show ?thesis using preprocess_message by blast
  qed
  have b: "preprocess_boundary_files pd fs = (None, Some (MissingFile name))"
    if "load_status pd fs = pre @ (name, Some (Missing name)) # post" "\<forall>x\<in>set pre. snd x = None"
    using load_sources_first_failure [OF that] by (simp add: preprocess_boundary_files_def)
  from a b show ?thesis by blast
qed

lemmas load_eval = load_sources_def require_def fbind_def load_forecast_def load_renewable_def
  load_disclosure_def load_tie_line_def load_clearing_def load_hydro_def load_actual_def
  load_price_def normalise_def iloc_col_def drop_first_row_def

theorem missing_file_fails_fast_witness:
  "file_load \<in> set required_files \<and> empty_upload file_load = None \<and>
   load_status sample_pandas empty_upload
     = [] @ (file_load, Some (Missing file_load)) # tl (load_status sample_pandas empty_upload) \<and>
   preprocess_boundary_files sample_pandas empty_upload = (None, Some (MissingFile file_load))"
proof -
  have m: "file_load \<in> set required_files" "empty_upload file_load = None"
    by (simp_all add: required_files_def empty_upload_def)
  have st: "load_status sample_pandas empty_upload
     = [] @ (file_load, Some (Missing file_load)) # tl (load_status sample_pandas empty_upload)"
    by (simp add: load_status_def status_def require_def empty_upload_def)
  have e: "\<forall>x\<in>set ([] :: (pystr \<times> failure option) list). snd x = None" by simp
  from missing_file_fails_fast [of empty_upload sample_pandas "[]" file_load
      "tl (load_status sample_pandas empty_upload)"] m st e
  show ?thesis by blast
qed

text \<open>
  Claim C9 as stated fails: with eight files missing and a load forecast sheet of a single
  column, the function stops at the exception raised while normalising that sheet; the
  message reports the exception and names no missing file.
\<close>

theorem missing_file_processing_error_counterexample:
  "one_column_upload file_price = None \<and>
   preprocess_boundary_files sample_pandas one_column_upload
     = (None, Some (ProcessingError IndexError))"
  by (simp add: preprocess_boundary_files_def load_eval one_column_upload_def file_defs)

lemmas bcol_defs = col_time_def col_boundary_type_def col_bidding_space_def col_load_def
  col_wind_def col_solar_def col_renewable_def col_non_market_def col_hydro_def
  col_tie_line_def col_online_capacity_def col_da_price_def col_rt_price_def
  col_load_rate_def col_seq_def col_time_sort_def col_type_sort_def col_date_def

lemma cell_at_row_set: "cell_at (row_set c v r) c' = (if c' = c then v else cell_at r c')"
  by (induction r) (auto simp: cell_at_def)

lemma map_of_tabulate:
  "map_of (map (\<lambda>c. (c, f c)) cols) c = (if c \<in> set cols then Some (f c) else None)"
  by (induction cols) auto

lemma cell_at_tabulate_append:
  "cell_at (map (\<lambda>c. (c, f c)) cols @ rest) c = (if c \<in> set cols then f c else cell_at rest c)"
  by (induction cols) (auto simp: cell_at_def)

lemma cell_at_tabulate:
  "cell_at (map (\<lambda>c. (c, f c)) cols) c = (if c \<in> set cols then f c else Null)"
  using cell_at_tabulate_append [of f cols "[]" c] by (simp add: cell_at_def)

lemma cell_at_reindex: "cell_at (reindex cols r) c = (if c \<in> set cols then cell_at r c else Null)"
  by (simp add: reindex_def cell_at_tabulate)

lemma cell_at_reindex_append:
  "cell_at (reindex cols r @ rest) c = (if c \<in> set cols then cell_at r c else cell_at rest c)"
  by (simp add: reindex_def cell_at_tabulate_append)

lemma map_of_filter_keys:
  "map_of (filter (\<lambda>kv. fst kv \<notin> set cs) r) c = (if c \<in> set cs then None else map_of r c)"
  by (induction r) auto

lemma cell_at_drop: 
  "cell_at (filter (\<lambda>kv. fst kv \<notin> set cs) r) c = (if c \<in> set cs then Null else cell_at r c)"
  by (simp add: cell_at_def map_of_filter_keys)

lemma zip_map_same: "zip xs (map g xs) = map (\<lambda>x. (x, g x)) xs"
  by (induction xs) auto

lemma set_column_map:
  "rows (set_column df c (map g (rows df))) = map (\<lambda>r. row_set c (g r) r) (rows df)"
  by (simp add: set_column_def zip_map_same o_def)

lemma set_column_col_cells:
  "rows (set_column df c (map g (col_cells df c'))) = map (\<lambda>r. row_set c (g (cell_at r c')) r) (rows df)"
  using set_column_map [of df c "\<lambda>r. g (cell_at r c')"] by (simp add: col_cells_def o_def)

lemma ensure_columns_rows:
  "\<exists>e. rows (ensure_columns cs df) = map e (rows df) \<and>
       (\<forall>r. \<forall>c\<in>set (columns df). cell_at (e r) c = cell_at r c)"
proof (induction cs arbitrary: df)
  case Nil
  have "rows df = map (\<lambda>r. r) (rows df)" by simp
  then show ?case by (intro exI [of _ "\<lambda>r. r"]) simp
next
  case (Cons c cs)
  show ?case
  proof (cases "c \<in> set (columns df)")
    case True
    with Cons.IH [of df] show ?thesis by simp
  next
    case False
    let ?df = "assign_scalar df c Null"
    from Cons.IH [of ?df] obtain e where
      e: "rows (ensure_columns cs ?df) = map e (rows ?df)"
      and p: "\<forall>r. \<forall>c'\<in>set (columns ?df). cell_at (e r) c' = cell_at r c'" by blast
    have "rows (ensure_columns (c # cs) df) = map (\<lambda>r. e (row_set c Null r)) (rows df)"
      using False e by (simp add: assign_scalar_def o_def)
    moreover have "\<forall>r. \<forall>c'\<in>set (columns df). cell_at (e (row_set c Null r)) c' = cell_at r c'"
      using p False by (auto simp: assign_scalar_def cell_at_row_set)
    ultimately show ?thesis by blast
  qed
qed


lemma tracked_unified: "tracked \<subseteq> set unified_columns"
  by (simp add: tracked_def unified_columns_def)

lemma tracked_not_sort: "c \<in> tracked \<Longrightarrow> c \<noteq> col_time_sort \<and> c \<noteq> col_type_sort"
  by (auto simp: tracked_def bcol_defs)

lemma columns_merge_outer [simp]: "columns (merge_outer L R) = columns L @ nonkey (columns R)"
  by (simp add: merge_outer_def)

lemma columns_merge_left [simp]: "columns (merge_left L R) = columns L @ nonkey (columns R)"
  by (simp add: merge_left_def)

lemma columns_project [simp]: "columns (project f cols) = cols"
  by (simp add: project_def)

lemma rows_project [simp]: "rows (project f cols) = map (reindex cols) (rows f)"
  by (simp add: project_def)

lemma columns_assign_scalar:
  "columns (assign_scalar df c v) = (if c \<in> set (columns df) then columns df else columns df @ [c])"
  by (simp add: assign_scalar_def)

lemma rows_assign_scalar [simp]: "rows (assign_scalar df c v) = map (row_set c v) (rows df)"
  by (simp add: assign_scalar_def)


lemma has_keys_project [simp]: "has_keys (project f (col_date # col_time # cs))"
  by (simp add: has_keys_def)

lemma has_keys_merge_outer [simp]: "has_keys L \<Longrightarrow> has_keys (merge_outer L R)"
  by (simp add: has_keys_def)

lemma has_keys_merge_left [simp]: "has_keys L \<Longrightarrow> has_keys (merge_left L R)"
  by (simp add: has_keys_def)

lemma has_keys_day_ahead_merged: "has_keys (day_ahead_merged s)"
  by (simp add: day_ahead_merged_def)

lemma day_ahead_data_columns: "tracked \<subseteq> set (columns (day_ahead_data s))"
  using has_keys_day_ahead_merged [of s]
  by (auto simp: tracked_def day_ahead_data_def columns_assign_scalar has_keys_def)

lemma reconcile_rows:
  "\<exists>h g. rows (reconcile pd s)
           = map g (sort_key sort_key_of (map h (rows (day_ahead_data s) @ rows (real_time_data s)))) \<and>
         (\<forall>r. \<forall>c\<in>tracked. cell_at (h r) c = cell_at r c) \<and>
         (\<forall>r. \<forall>c\<in>tracked. cell_at (g r) c = cell_at r c)"
proof -
  define R0 where "R0 = rows (day_ahead_data s) @ rows (real_time_data s)"
  define C where "C = concat_frames (day_ahead_data s) (real_time_data s)"
  define cols where "cols = columns C"
  have rC: "rows C = map (reindex cols) R0"
    by (simp add: C_def cols_def R0_def concat_frames_def Let_def)
  have tc: "tracked \<subseteq> set cols"
    using day_ahead_data_columns [of s] by (auto simp: C_def cols_def concat_frames_def Let_def)
  from ensure_columns_rows [of unified_columns C] obtain e where
    e: "rows (ensure_columns unified_columns C) = map e (rows C)"
    and ep: "\<forall>r. \<forall>c\<in>set cols. cell_at (e r) c = cell_at r c"
    unfolding cols_def by blast
  define P where "P = project (ensure_columns unified_columns C) unified_columns"
  define t where "t = (\<lambda>c. case strptime_hm pd c of None \<Rightarrow> Null | Some t \<Rightarrow> Ts t)"
  define h1 where "h1 = (\<lambda>r. reindex unified_columns (e (reindex cols r)))"
  define h2 where "h2 = (\<lambda>r. row_set col_time_sort (t (cell_at r col_time)) r)"
  define h3 where "h3 = (\<lambda>r. row_set col_type_sort (type_order (cell_at r col_boundary_type)) r)"
  define g where "g = filter (\<lambda>kv :: pystr \<times> cell. fst kv \<notin> set [col_time_sort, col_type_sort])"
  have rP: "rows P = map h1 R0"
    by (simp add: P_def project_def e rC h1_def o_def)
  define df1 where "df1 = set_column P col_time_sort (map t (col_cells P col_time))"
  have r1: "rows df1 = map h2 (rows P)"
    unfolding df1_def h2_def by (rule set_column_col_cells)
  define df2 where "df2 = set_column df1 col_type_sort (map type_order (col_cells df1 col_boundary_type))"
  have r2: "rows df2 = map h3 (rows df1)"
    unfolding df2_def h3_def by (rule set_column_col_cells)
  have "reconcile pd s = drop_columns (df2\<lparr>rows := sort_key sort_key_of (rows df2)\<rparr>)
          [col_time_sort, col_type_sort]"
    by (simp add: reconcile_def sort_result_def Let_def df2_def df1_def P_def C_def t_def)
  then have "rows (reconcile pd s) = map g (sort_key sort_key_of (rows df2))"
    by (simp add: drop_columns_def g_def)
  then have main: "rows (reconcile pd s) = map g (sort_key sort_key_of (map (\<lambda>r. h3 (h2 (h1 r))) R0))"
    by (simp add: r2 r1 rP o_def)
  have hp: "\<forall>r. \<forall>c\<in>tracked. cell_at (h3 (h2 (h1 r))) c = cell_at r c"
  proof (intro allI ballI)
    fix r c assume c: "c \<in> tracked"
    then have cu: "c \<in> set unified_columns" and cc: "c \<in> set cols"
      using tracked_unified tc by auto
    from c have ns: "c \<noteq> col_time_sort" "c \<noteq> col_type_sort"
      using tracked_not_sort by auto
    show "cell_at (h3 (h2 (h1 r))) c = cell_at r c"
      using cu cc ns ep by (simp add: h3_def h2_def h1_def cell_at_row_set cell_at_reindex)
  qed
  have gp: "\<forall>r. \<forall>c\<in>tracked. cell_at (g r) c = cell_at r c"
    unfolding g_def cell_at_drop using tracked_not_sort by auto
  show ?thesis
    using main hp gp unfolding R0_def
    by (intro exI [of _ "\<lambda>r. h3 (h2 (h1 r))"] exI [of _ g] conjI)
qed


lemma left_join_row_null:
  assumes "r' \<in> set (left_join_row L R l)" and "c \<notin> set (columns L)" and "c \<notin> set (columns R)"
  shows "cell_at r' c = Null"
  using assms
  by (auto simp: left_join_row_def Let_def cell_at_reindex_append cell_at_reindex
      cell_at_tabulate reindex_def cell_at_tabulate_append nonkey_def split: if_splits)

lemma merge_left_null:
  assumes "r' \<in> set (rows (merge_left L R))" and "c \<notin> set (columns L)" and "c \<notin> set (columns R)"
  shows "cell_at r' c = Null"
  using assms by (auto simp: merge_left_def dest: left_join_row_null)

lemma real_time_rows:
  assumes "r \<in> set (rows (real_time_data s))"
  shows "cell_at r col_boundary_type = Str type_real_time \<and> cell_at r col_online_capacity = Null"
proof -
  let ?A = "project (df_actual s)
                [col_date, col_time, col_load, col_wind, col_solar, col_renewable, col_hydro,
                 col_non_market]"
  let ?T = "project (df_tie_line_rt s) [col_date, col_time, col_tie_line]"
  let ?P = "project (df_price s) [col_date, col_time, col_rt_price]"
  let ?M = "merge_left (merge_left ?A ?T) ?P"
  from assms obtain r0 where r0: "r0 \<in> set (rows ?M)"
    and r: "r = row_set col_boundary_type (Str type_real_time) r0"
    by (auto simp: real_time_data_def)
  have "col_online_capacity \<notin> set (columns (merge_left ?A ?T))"
    "col_online_capacity \<notin> set (columns ?P)"
    by (simp_all add: nonkey_def bcol_defs)
  from merge_left_null [OF r0 this] have "cell_at r0 col_online_capacity = Null" .
  moreover have "col_online_capacity \<noteq> col_boundary_type" by (simp add: bcol_defs)
  ultimately show ?thesis by (simp add: r cell_at_row_set)
qed

lemma day_ahead_rows:
  assumes "r \<in> set (rows (day_ahead_data s))"
  shows "cell_at r col_boundary_type = Str type_day_ahead \<and>
         cell_at r col_online_capacity = (case online_capacity s of None \<Rightarrow> Null | Some x \<Rightarrow> Num x)"
proof -
  have "col_boundary_type \<noteq> col_online_capacity" by (simp add: bcol_defs)
  with assms show ?thesis by (auto simp: day_ahead_data_def cell_at_row_set)
qed

lemma type_labels_distinct: "Str type_day_ahead \<noteq> Str type_real_time"
  by (simp add: type_day_ahead_def type_real_time_def)

lemma reconcile_row_origin:
  assumes "r \<in> set (rows (reconcile pd s))"
  shows "\<exists>r0 \<in> set (rows (day_ahead_data s)) \<union> set (rows (real_time_data s)).
           \<forall>c\<in>tracked. cell_at r c = cell_at r0 c"
proof -
  from reconcile_rows [of pd s] obtain h g where
    rr: "rows (reconcile pd s)
           = map g (sort_key sort_key_of (map h (rows (day_ahead_data s) @ rows (real_time_data s))))"
    and hp: "\<forall>r. \<forall>c\<in>tracked. cell_at (h r) c = cell_at r c"
    and gp: "\<forall>r. \<forall>c\<in>tracked. cell_at (g r) c = cell_at r c" by blast
  from assms rr obtain r0 where "r0 \<in> set (rows (day_ahead_data s)) \<union> set (rows (real_time_data s))"
    and "r = g (h r0)" by auto
  with hp gp show ?thesis by auto
qed

lemma reconcile_online_capacity:
  assumes "r \<in> set (rows (reconcile pd s))"
  shows "(cell_at r col_boundary_type = Str type_day_ahead \<and>
          cell_at r col_online_capacity = (case online_capacity s of None \<Rightarrow> Null | Some x \<Rightarrow> Num x)) \<or>
         (cell_at r col_boundary_type = Str type_real_time \<and> cell_at r col_online_capacity = Null)"
proof -
  from reconcile_row_origin [OF assms] obtain r0 where
    r0: "r0 \<in> set (rows (day_ahead_data s)) \<union> set (rows (real_time_data s))"
    and eq: "\<forall>c\<in>tracked. cell_at r c = cell_at r0 c" by blast
  have "col_boundary_type \<in> tracked" "col_online_capacity \<in> tracked" by (simp_all add: tracked_def)
  with eq have "cell_at r col_boundary_type = cell_at r0 col_boundary_type"
    "cell_at r col_online_capacity = cell_at r0 col_online_capacity" by auto
  with r0 day_ahead_rows [of r0 s] real_time_rows [of r0 s] show ?thesis by auto
qed

lemma load_sources_clearing:
  assumes "load_sources pd fs = Inr s"
  shows "\<exists>sheet. fs file_clearing = Some (Inr sheet) \<and> load_clearing pd sheet = Inr (online_capacity s)"
proof -
  from assms obtain oc where "require fs file_clearing (load_clearing pd) = Inr oc"
    and "online_capacity s = oc"
    by (auto simp: load_sources_def fbind_Inr_iff)
  then show ?thesis
    by (auto simp: require_def ebind_def split: option.splits sum.splits)
qed

lemma preprocess_reconcile:
  assumes "preprocess_boundary_files pd fs = (Some df, None) \<or> preprocess_data pd fs = Inr df"
  shows "\<exists>s. load_sources pd fs = Inr s \<and> df = reconcile pd s"
  using assms
  by (auto simp: preprocess_boundary_files_def preprocess_data_def split: sum.splits failure.splits)

text \<open>
  Claim C7: in every unified table that \<^verbatim>\<open>preprocess_boundary_files\<close> or
  \<^verbatim>\<open>preprocess_data\<close> produces, each row is either a forecast row whose online
  capacity is the one value extracted from the clearing summary sheet (null when the
  extraction finds none), or a realtime row whose online capacity is null.
\<close>

theorem online_capacity_broadcast:
  assumes "preprocess_boundary_files pd fs = (Some df, None) \<or> preprocess_data pd fs = Inr df"
  shows "\<exists>sheet oc. fs file_clearing = Some (Inr sheet) \<and> load_clearing pd sheet = Inr oc \<and>
           (\<forall>r\<in>set (rows df).
              (cell_at r col_boundary_type = Str type_day_ahead \<and>
               cell_at r col_online_capacity = (case oc of None \<Rightarrow> Null | Some x \<Rightarrow> Num x)) \<or>
              (cell_at r col_boundary_type = Str type_real_time \<and>
               cell_at r col_online_capacity = Null))"
proof -
  from preprocess_reconcile [OF assms] obtain s where
    s: "load_sources pd fs = Inr s" and df: "df = reconcile pd s" by blast
  from load_sources_clearing [OF s] obtain sheet where
    "fs file_clearing = Some (Inr sheet)" "load_clearing pd sheet = Inr (online_capacity s)" by blast
  then show ?thesis
    using reconcile_online_capacity [of _ pd s] unfolding df by blast
qed

lemma key_names_distinct:
  "col_date \<noteq> col_time" "col_date \<noteq> col_boundary_type" "col_date \<noteq> col_online_capacity"
  "col_time \<noteq> col_boundary_type" "col_time \<noteq> col_online_capacity"
  by (simp_all add: bcol_defs)

lemma row_key_reindex:
  "col_date \<in> set cols \<Longrightarrow> col_time \<in> set cols \<Longrightarrow> row_key (reindex cols r) = row_key r"
  by (simp add: row_key_def cell_at_reindex)

lemma row_key_left_join:
  assumes "has_keys L" and "r' \<in> set (left_join_row L R l)"
  shows "row_key r' = row_key l"
  using assms
  by (auto simp: left_join_row_def Let_def has_keys_def row_key_def cell_at_reindex_append
      split: if_splits)

lemma length_left_join: "length (left_join_row L R l) = max 1 (key_count R (row_key l))"
proof (cases "filter (\<lambda>r. row_key r = row_key l) (rows R) = []")
  case True
  then show ?thesis by (simp add: left_join_row_def key_count_def)
next
  case False
  then have "Suc 0 \<le> length (filter (\<lambda>r. row_key r = row_key l) (rows R))"
    by (simp add: Suc_le_eq)
  with False show ?thesis by (simp add: left_join_row_def key_count_def max_def)
qed

lemma row_key_right_only:
  assumes "has_keys L"
  shows "row_key (right_only_row L R r) = row_key r"
  using assms by (simp add: right_only_row_def has_keys_def row_key_def cell_at_tabulate_append)

lemma sum_list_indicator:
  "sum_list (map (\<lambda>x. if P x then c else 0) xs) = length (filter P xs) * (c::nat)"
  by (induction xs) simp_all

lemma filter_left_join:
  assumes "has_keys L"
  shows "length (filter (\<lambda>r. row_key r = k) (left_join_row L R l))
           = (if row_key l = k then max 1 (key_count R k) else 0)"
proof (cases "row_key l = k")
  case True
  with row_key_left_join [OF assms] have "filter (\<lambda>r. row_key r = k) (left_join_row L R l)
      = left_join_row L R l"
    by (auto simp: filter_id_conv)
  with True show ?thesis by (simp add: length_left_join)
next
  case False
  with row_key_left_join [OF assms] have "filter (\<lambda>r. row_key r = k) (left_join_row L R l) = []"
    by (auto simp: filter_empty_conv)
  with False show ?thesis by simp
qed

lemma key_count_zero_iff: "key_count f k = 0 \<longleftrightarrow> k \<notin> set (map row_key (rows f))"
  by (auto simp: key_count_def filter_empty_conv)

lemma key_count_merge_left_part:
  assumes "has_keys L"
  shows "length (filter (\<lambda>r. row_key r = k) (concat (map (left_join_row L R) (rows L))))
           = key_count L k * max 1 (key_count R k)"
proof -
  have "length (filter (\<lambda>r. row_key r = k) (concat (map (left_join_row L R) (rows L))))
      = sum_list (map (\<lambda>l. length (filter (\<lambda>r. row_key r = k) (left_join_row L R l))) (rows L))"
    by (simp add: filter_concat length_concat o_def)
  also have "\<dots> = sum_list (map (\<lambda>l. if row_key l = k then max 1 (key_count R k) else 0) (rows L))"
    by (simp add: filter_left_join [OF assms])
  also have "\<dots> = key_count L k * max 1 (key_count R k)"
    by (simp add: sum_list_indicator key_count_def)
  finally show ?thesis .
qed

lemma key_count_merge_outer:
  assumes "has_keys L"
  shows "key_count (merge_outer L R) k
           = key_count L k * max 1 (key_count R k) + (if key_count L k = 0 then key_count R k else 0)"
proof -
  have right: "length (filter (\<lambda>r. row_key r = k)
           (map (right_only_row L R)
              (filter (\<lambda>r. row_key r \<notin> set (map row_key (rows L))) (rows R))))
         = (if key_count L k = 0 then key_count R k else 0)"
  proof -
    have "length (filter (\<lambda>r. row_key r = k)
           (map (right_only_row L R)
              (filter (\<lambda>r. row_key r \<notin> set (map row_key (rows L))) (rows R))))
        = length (filter (\<lambda>r. row_key r \<notin> set (map row_key (rows L)) \<and> row_key r = k) (rows R))"
      by (simp add: filter_map o_def row_key_right_only [OF assms] conj_commute)
    also have "\<dots> = (if key_count L k = 0 then key_count R k else 0)"
    proof (cases "key_count L k = 0")
      case True
      then have "k \<notin> set (map row_key (rows L))" by (simp add: key_count_zero_iff)
      then have "filter (\<lambda>r. row_key r \<notin> set (map row_key (rows L)) \<and> row_key r = k) (rows R)
          = filter (\<lambda>r. row_key r = k) (rows R)"
        by (intro filter_cong) auto
      with True show ?thesis by (simp add: key_count_def)
    next
      case False
      then have "k \<in> set (map row_key (rows L))" by (simp add: key_count_zero_iff)
      then have "filter (\<lambda>r. row_key r \<notin> set (map row_key (rows L)) \<and> row_key r = k) (rows R) = []"
        by (auto simp: filter_empty_conv)
      with False show ?thesis by simp
    qed
    finally show ?thesis .
  qed
  show ?thesis
    unfolding key_count_def [of "merge_outer L R"]
    using key_count_merge_left_part [OF assms, of k R] right
    by (simp add: merge_outer_def)
qed

lemma key_count_project:
  assumes "col_date \<in> set cols" and "col_time \<in> set cols"
  shows "key_count (project f cols) k = key_count f k"
  by (simp add: key_count_def filter_map o_def row_key_reindex [OF assms])

lemma outer_join_count_single: "outer_join_count [t] k = key_count t k"
  by (simp add: outer_join_count_def)

lemma prod_list_max_pos: "0 < prod_list (map (\<lambda>t. max 1 (key_count t k)) ts)"
  by (induction ts) simp_all

lemma prod_list_all_zero:
  "list_all (\<lambda>t. key_count t k = 0) ts \<Longrightarrow> prod_list (map (\<lambda>t. max 1 (key_count t k)) ts) = 1"
  by (induction ts) simp_all

lemma outer_join_count_snoc:
  "outer_join_count ts k * max 1 (key_count t k)
     + (if outer_join_count ts k = 0 then key_count t k else 0)
   = outer_join_count (ts @ [t]) k"
proof (cases "list_all (\<lambda>t. key_count t k = 0) ts")
  case True
  with prod_list_all_zero [OF True] show ?thesis
    by (cases "key_count t k = 0") (simp_all add: outer_join_count_def max_def)
next
  case False
  then have "outer_join_count ts k \<noteq> 0"
    using prod_list_max_pos [of k ts] by (simp add: outer_join_count_def)
  with False show ?thesis by (simp add: outer_join_count_def)
qed

lemma key_count_merge_outer_join:
  assumes "has_keys L" and "key_count L k = outer_join_count ts k"
    and "col_date \<in> set cols" and "col_time \<in> set cols"
  shows "key_count (merge_outer L (project t cols)) k = outer_join_count (ts @ [t]) k"
proof -
  have "key_count (merge_outer L (project t cols)) k
      = outer_join_count ts k * max 1 (key_count t k)
        + (if outer_join_count ts k = 0 then key_count t k else 0)"
    unfolding key_count_merge_outer [OF assms(1)] assms(2) key_count_project [OF assms(3,4)] ..
  then show ?thesis by (simp only: outer_join_count_snoc)
qed

lemma key_count_day_ahead_merged:
  "key_count (day_ahead_merged s) k = outer_join_count (forecast_sources s) k"
proof -
  let ?l = "project (df_load s) [col_date, col_time, col_load]"
  have 1: "key_count ?l k = outer_join_count [df_load s] k"
    by (simp add: outer_join_count_single key_count_project)
  let ?m1 = "merge_outer ?l (project (df_renewable s)
                      [col_date, col_time, col_wind, col_solar, col_renewable])"
  have 2: "key_count ?m1 k = outer_join_count ([df_load s] @ [df_renewable s]) k"
    by (rule key_count_merge_outer_join [OF _ 1]) simp_all
  let ?m2 = "merge_outer ?m1 (project (df_disclosure s) [col_date, col_time, col_non_market])"
  have 3: "key_count ?m2 k = outer_join_count (([df_load s] @ [df_renewable s]) @ [df_disclosure s]) k"
    by (rule key_count_merge_outer_join [OF _ 2]) simp_all
  let ?m3 = "merge_outer ?m2 (project (df_tie_line s) [col_date, col_time, col_tie_line])"
  have 4: "key_count ?m3 k = outer_join_count
       ((([df_load s] @ [df_renewable s]) @ [df_disclosure s]) @ [df_tie_line s]) k"
    by (rule key_count_merge_outer_join [OF _ 3]) simp_all
  let ?m4 = "merge_outer ?m3 (project (df_hydro s) [col_date, col_time, col_hydro])"
  have 5: "key_count ?m4 k = outer_join_count
       (((([df_load s] @ [df_renewable s]) @ [df_disclosure s]) @ [df_tie_line s]) @ [df_hydro s]) k"
    by (rule key_count_merge_outer_join [OF _ 4]) simp_all
  let ?m5 = "merge_outer ?m4 (project (df_price s) [col_date, col_time, col_da_price])"
  have 6: "key_count ?m5 k = outer_join_count
       ((((([df_load s] @ [df_renewable s]) @ [df_disclosure s]) @ [df_tie_line s]) @ [df_hydro s])
          @ [df_price s]) k"
    by (rule key_count_merge_outer_join [OF _ 5]) simp_all
  then show ?thesis by (simp add: day_ahead_merged_def forecast_sources_def)
qed


lemma reconcile_count:
  assumes "\<And>r r'. \<forall>c\<in>tracked. cell_at r c = cell_at r' c \<Longrightarrow> Q r = Q r'"
  shows "length (filter Q (rows (reconcile pd s)))
           = length (filter Q (rows (day_ahead_data s) @ rows (real_time_data s)))"
proof -
  from reconcile_rows [of pd s] obtain h g where
    rr: "rows (reconcile pd s)
           = map g (sort_key sort_key_of (map h (rows (day_ahead_data s) @ rows (real_time_data s))))"
    and hp: "\<forall>r. \<forall>c\<in>tracked. cell_at (h r) c = cell_at r c"
    and gp: "\<forall>r. \<forall>c\<in>tracked. cell_at (g r) c = cell_at r c" by blast
  have qg: "Q (g r) = Q r" for r using assms [of "g r" r] gp by blast
  have qh: "Q (h r) = Q r" for r using assms [of "h r" r] hp by blast
  show ?thesis
    by (simp add: rr filter_map o_def qg qh filter_sort)
qed

lemma day_ahead_rows_map:
  "\<exists>f. rows (day_ahead_data s) = map f (rows (day_ahead_merged s)) \<and>
       (\<forall>r. row_key (f r) = row_key r \<and> cell_at (f r) col_boundary_type = Str type_day_ahead)"
proof -
  let ?f = "\<lambda>r. row_set col_online_capacity
                 (case online_capacity s of None \<Rightarrow> Null | Some x \<Rightarrow> Num x)
                 (row_set col_boundary_type (Str type_day_ahead) r)"
  have "rows (day_ahead_data s) = map ?f (rows (day_ahead_merged s))"
    by (simp add: day_ahead_data_def o_def)
  moreover have "\<forall>r. row_key (?f r) = row_key r \<and> cell_at (?f r) col_boundary_type = Str type_day_ahead"
    using key_names_distinct by (simp add: row_key_def cell_at_row_set bcol_defs)
  ultimately show ?thesis by blast
qed

lemma forecast_key_count:
  "length (filter (\<lambda>r. cell_at r col_boundary_type = Str type_day_ahead \<and> row_key r = k)
            (rows (reconcile pd s)))
     = key_count (day_ahead_merged s) k"
proof -
  let ?Q = "\<lambda>r. cell_at r col_boundary_type = Str type_day_ahead \<and> row_key r = k"
  have resp: "?Q r = ?Q r'" if "\<forall>c\<in>tracked. cell_at r c = cell_at r' c" for r r'
    using that by (simp add: tracked_def row_key_def)
  from day_ahead_rows_map [of s] obtain f where
    f: "rows (day_ahead_data s) = map f (rows (day_ahead_merged s))"
    and fp: "\<forall>r. row_key (f r) = row_key r \<and> cell_at (f r) col_boundary_type = Str type_day_ahead"
    by blast
  have da: "length (filter ?Q (rows (day_ahead_data s))) = key_count (day_ahead_merged s) k"
    by (simp add: f filter_map o_def fp key_count_def)
  have rt: "filter ?Q (rows (real_time_data s)) = []"
    using real_time_rows [of _ s] type_labels_distinct by (auto simp: filter_empty_conv)
  have "length (filter ?Q (rows (reconcile pd s)))
      = length (filter ?Q (rows (day_ahead_data s) @ rows (real_time_data s)))"
    by (rule reconcile_count) (rule resp)
  with da rt show ?thesis by simp
qed

lemma forecast_partition_length:
  "length (forecast_partition (reconcile pd s)) = length (rows (day_ahead_merged s))"
proof -
  let ?Q = "\<lambda>r. cell_at r col_boundary_type = Str type_day_ahead"
  have resp: "?Q r = ?Q r'" if "\<forall>c\<in>tracked. cell_at r c = cell_at r' c" for r r'
    using that by (simp add: tracked_def)
  from day_ahead_rows_map [of s] obtain f where
    f: "rows (day_ahead_data s) = map f (rows (day_ahead_merged s))"
    and fp: "\<forall>r. row_key (f r) = row_key r \<and> cell_at (f r) col_boundary_type = Str type_day_ahead"
    by blast
  have da: "length (filter ?Q (rows (day_ahead_data s))) = length (rows (day_ahead_merged s))"
    by (simp add: f filter_map o_def fp)
  have rt: "filter ?Q (rows (real_time_data s)) = []"
    using real_time_rows [of _ s] type_labels_distinct by (auto simp: filter_empty_conv)
  have "length (filter ?Q (rows (reconcile pd s)))
      = length (filter ?Q (rows (day_ahead_data s) @ rows (real_time_data s)))"
    by (rule reconcile_count) (rule resp)
  with da rt show ?thesis by (simp add: forecast_partition_def)
qed

lemma sum_list_one_hot:
  assumes "distinct ks" and "a \<in> set ks"
  shows "sum_list (map (\<lambda>k. if a = k then 1 else 0) ks) = (1::nat)"
  using assms by (induction ks) (auto simp: sum_list_0)

lemma length_sum_fibers:
  assumes "distinct ks" and "set (map f xs) \<subseteq> set ks"
  shows "length xs = sum_list (map (\<lambda>k. length (filter (\<lambda>x. f x = k) xs)) ks)"
  using assms(2)
proof (induction xs)
  case Nil
  then show ?case by (simp add: sum_list_0)
next
  case (Cons a xs)
  then have a: "f a \<in> set ks" and sub: "set (map f xs) \<subseteq> set ks" by auto
  have "sum_list (map (\<lambda>k. length (filter (\<lambda>x. f x = k) (a # xs))) ks)
      = sum_list (map (\<lambda>k. (if f a = k then 1 else 0) + length (filter (\<lambda>x. f x = k) xs)) ks)"
    by (intro arg_cong [of _ _ sum_list] map_cong) auto
  also have "\<dots> = sum_list (map (\<lambda>k. if f a = k then 1 else 0) ks)
                   + sum_list (map (\<lambda>k. length (filter (\<lambda>x. f x = k) xs)) ks)"
    by (simp add: sum_list_addf)
  also have "\<dots> = 1 + length xs"
    using sum_list_one_hot [OF assms(1) a] Cons.IH [OF sub] by simp
  finally show ?case by simp
qed

lemma outer_join_count_zero_iff:
  "outer_join_count ts k = 0 \<longleftrightarrow> k \<notin> set (outer_join_keys ts)"
proof -
  have "outer_join_count ts k = 0 \<longleftrightarrow> list_all (\<lambda>t. key_count t k = 0) ts"
    using prod_list_max_pos [of k ts] by (simp add: outer_join_count_def)
  also have "\<dots> \<longleftrightarrow> k \<notin> set (outer_join_keys ts)"
    by (auto simp: list_all_iff key_count_zero_iff outer_join_keys_def)
  finally show ?thesis .
qed

lemma forecast_outer_join:
  "set (map row_key (forecast_partition (reconcile pd s))) = set (outer_join_keys (forecast_sources s)) \<and>
   length (forecast_partition (reconcile pd s)) = outer_join_cardinality (forecast_sources s)"
proof -
  let ?ts = "forecast_sources s"
  let ?M = "day_ahead_merged s"
  have keys: "k \<in> set (map row_key (rows ?M)) \<longleftrightarrow> k \<in> set (outer_join_keys ?ts)" for k
    using key_count_zero_iff [of ?M k] outer_join_count_zero_iff [of ?ts k]
    by (simp add: key_count_day_ahead_merged)
  have "k \<in> set (map row_key (forecast_partition (reconcile pd s)))
        \<longleftrightarrow> k \<in> set (outer_join_keys ?ts)" for k
  proof -
    have "k \<in> set (map row_key (forecast_partition (reconcile pd s)))
        \<longleftrightarrow> filter (\<lambda>r. cell_at r col_boundary_type = Str type_day_ahead \<and> row_key r = k)
              (rows (reconcile pd s)) \<noteq> []"
      by (auto simp: forecast_partition_def filter_empty_conv)
    also have "\<dots> \<longleftrightarrow> key_count ?M k \<noteq> 0"
      using forecast_key_count [of k pd s] by (metis length_0_conv)
    also have "\<dots> \<longleftrightarrow> k \<in> set (outer_join_keys ?ts)"
      using keys [of k] by (simp add: key_count_zero_iff)
    finally show ?thesis .
  qed
  then have a: "set (map row_key (forecast_partition (reconcile pd s))) = set (outer_join_keys ?ts)"
    by blast
  have d: "distinct (outer_join_keys ?ts)" by (simp add: outer_join_keys_def)
  have sub: "set (map row_key (rows ?M)) \<subseteq> set (outer_join_keys ?ts)"
    using keys by blast
  have "length (rows ?M)
      = sum_list (map (\<lambda>k. length (filter (\<lambda>r. row_key r = k) (rows ?M))) (outer_join_keys ?ts))"
    by (rule length_sum_fibers [OF d sub])
  also have "\<dots> = outer_join_cardinality ?ts"
    using key_count_day_ahead_merged [of s]
    by (simp add: outer_join_cardinality_def key_count_def)
  finally have b: "length (forecast_partition (reconcile pd s)) = outer_join_cardinality ?ts"
    by (simp add: forecast_partition_length)
  from a b show ?thesis ..
qed

text \<open>
  Claim C6, amended: the forecast partition of the unified table has exactly the keys of
  its six contributing normalised tables (no key of any of them is lost, none is added),
  and its row count is the cardinality of their full outer join on (date, time slot).
\<close>

theorem forecast_partition_outer_join:
  assumes "preprocess_boundary_files pd fs = (Some df, None) \<or> preprocess_data pd fs = Inr df"
  shows "\<exists>s. load_sources pd fs = Inr s \<and>
           set (map row_key (forecast_partition df)) = set (outer_join_keys (forecast_sources s)) \<and>
           length (forecast_partition df) = outer_join_cardinality (forecast_sources s)"
  using preprocess_reconcile [OF assms] forecast_outer_join by blast

end
